theory Spec2Isabelle
  imports Main
begin

section \<open>The IR as the cloner reads it\<close>

text \<open>
  The cloner of \<^verbatim>\<open>include/swift/SIL/SILCloner.h\<close> works on pointers to IR nodes. A pointer
  is modelled by the address of the node, a natural number; two nodes are the same node
  exactly when their addresses are equal. Source locations, types and the payload that the
  clone rules only copy (declaration references, substitutions, conformances, cast kinds,
  literal values) are opaque to the cloner and are modelled by plain numbers, lists of
  numbers and strings. A floating-point literal is only ever copied, so it is kept as its
  bit pattern.
\<close>

type_synonym SILLocation = nat
type_synonym SILType = nat
type_synonym Decl = nat
type_synonym SILDeclRef = nat
type_synonym Substitutions = "nat list"
type_synonym Conformances = "nat list"
type_synonym CheckedCastKind = nat
type_synonym APInt = int
type_synonym APFloat = nat
type_synonym SILFunctionRef = nat
type_synonym SILBasicBlockRef = nat

text \<open>
  \<^verbatim>\<open>Value.getDef()\<close> is a \<^verbatim>\<open>ValueBase*\<close>; \<^verbatim>\<open>remapValue\<close> tells a block argument from an
  instruction with \<^verbatim>\<open>dyn_cast\<close> and has a third branch for everything else. A \<^verbatim>\<open>SILValue\<close>
  is such a definition together with a result number. The null value \<^verbatim>\<open>SILValue()\<close> is not
  a member of this type: where the source passes a possibly null value, the model uses
  \<open>SILValue option\<close>.
\<close>

datatype ValueBase = SILArgument nat | SILInstruction nat | OtherValue nat

datatype SILValue = SILValue (getDef: ValueBase) (getResultNumber: nat)

text \<open>
  Modelled from the spec: the instruction classes (\<^verbatim>\<open>SILInstruction.h\<close> and \<^verbatim>\<open>SILNodes.def\<close> are
  not among the sources), which the spec describes as tagged nodes with a kind, typed
  operands and opaque payload. There is one constructor per instruction class that has a
  clone rule in the header. The fields of a constructor are what the rule reads from the
  instruction, which are also the arguments of the class's \<^verbatim>\<open>Builder.create...\<close> factory,
  in the factory's order, so that \<open>LoadInst loc v\<close> is the instruction that
  \<^verbatim>\<open>Builder.createLoad(loc, v)\<close> constructs. An optional default target is an \<open>option\<close>
  (\<^verbatim>\<open>hasDefault()\<close>, \<^verbatim>\<open>getDefaultBB()\<close>), and so is the optional operand of \<^verbatim>\<open>EnumInst\<close>
  (\<^verbatim>\<open>hasOperand()\<close>, \<^verbatim>\<open>getOperand()\<close>).

  The classes are declared in twelve groups, in the order of the header, and
  \<open>SILInstruction\<close> is the sum of the groups. The grouping has no counterpart in the code; it
  keeps the single declarations small.
\<close>

datatype AllocationInst =
    AllocStackInst SILLocation SILType
  | AllocRefInst SILLocation SILType
  | AllocBoxInst SILLocation SILType
  | AllocArrayInst SILLocation SILType SILValue

datatype FunctionAndLiteralInst =
    ApplyInst SILLocation SILValue SILType SILType Substitutions "SILValue list" bool
  | PartialApplyInst SILLocation SILValue SILType Substitutions "SILValue list" SILType
  | BuiltinFunctionRefInst SILLocation Decl SILType
  | FunctionRefInst SILLocation SILFunctionRef
  | GlobalAddrInst SILLocation Decl SILType
  | IntegerLiteralInst SILLocation SILType APInt
  | FloatLiteralInst SILLocation SILType APFloat
  | StringLiteralInst SILLocation SILType string

datatype AccessInst =
    LoadInst SILLocation SILValue
  | StoreInst SILLocation SILValue SILValue
  | AssignInst SILLocation SILValue SILValue
  | MarkUninitializedInst SILLocation SILValue
  | MarkFunctionEscapeInst SILLocation "SILValue list"
  | LoadWeakInst SILLocation SILValue bool
  | StoreWeakInst SILLocation SILValue SILValue bool
  | InitializeVarInst SILLocation SILValue bool
  | CopyAddrInst SILLocation SILValue SILValue bool bool

datatype ConversionInst =
    ConvertFunctionInst SILLocation SILValue SILType
  | CoerceInst SILLocation SILValue SILType
  | UpcastInst SILLocation SILValue SILType
  | AddressToPointerInst SILLocation SILValue SILType
  | PointerToAddressInst SILLocation SILValue SILType
  | RefToObjectPointerInst SILLocation SILValue SILType
  | ObjectPointerToRefInst SILLocation SILValue SILType
  | RefToRawPointerInst SILLocation SILValue SILType
  | RawPointerToRefInst SILLocation SILValue SILType
  | RefToUnownedInst SILLocation SILValue SILType
  | UnownedToRefInst SILLocation SILValue SILType
  | ThinToThickFunctionInst SILLocation SILValue SILType
  | ConvertCCInst SILLocation SILValue SILType
  | BridgeToBlockInst SILLocation SILValue SILType
  | ArchetypeRefToSuperInst SILLocation SILValue SILType
  | IsNonnullInst SILLocation SILValue
  | UnconditionalCheckedCastInst SILLocation CheckedCastKind SILValue SILType

datatype AggregateInst =
    CopyValueInst SILLocation SILValue
  | DestroyValueInst SILLocation SILValue
  | StructInst SILLocation SILType "SILValue list"
  | TupleInst SILLocation SILType "SILValue list"
  | EnumInst SILLocation "SILValue option" Decl SILType
  | EnumDataAddrInst SILLocation SILValue Decl SILType
  | InjectEnumAddrInst SILLocation SILValue Decl

datatype TypeValueInst =
    BuiltinZeroInst SILLocation SILType
  | MetatypeInst SILLocation SILType
  | ClassMetatypeInst SILLocation SILType SILValue
  | ArchetypeMetatypeInst SILLocation SILType SILValue
  | ProtocolMetatypeInst SILLocation SILType SILValue
  | ModuleInst SILLocation SILType

datatype ProjectionInst =
    TupleExtractInst SILLocation SILValue nat SILType
  | TupleElementAddrInst SILLocation SILValue nat SILType
  | StructExtractInst SILLocation SILValue Decl SILType
  | StructElementAddrInst SILLocation SILValue Decl SILType
  | RefElementAddrInst SILLocation SILValue Decl SILType

datatype MethodInst =
    ClassMethodInst SILLocation SILValue SILDeclRef SILType bool
  | SuperMethodInst SILLocation SILValue SILDeclRef SILType bool
  | ArchetypeMethodInst SILLocation SILType SILDeclRef SILType bool
  | ProtocolMethodInst SILLocation SILValue SILDeclRef SILType bool
  | DynamicMethodInst SILLocation SILValue SILDeclRef SILType bool

datatype ExistentialInst =
    ProjectExistentialInst SILLocation SILValue SILType
  | ProjectExistentialRefInst SILLocation SILValue SILType
  | InitExistentialInst SILLocation SILValue SILType Conformances
  | InitExistentialRefInst SILLocation SILType SILValue Conformances
  | DeinitExistentialInst SILLocation SILValue
  | UpcastExistentialInst SILLocation SILValue SILValue bool
  | UpcastExistentialRefInst SILLocation SILValue SILType

datatype RefCountingInst =
    StrongRetainInst SILLocation SILValue
  | StrongRetainAutoreleasedInst SILLocation SILValue
  | StrongReleaseInst SILLocation SILValue
  | StrongRetainUnownedInst SILLocation SILValue
  | UnownedRetainInst SILLocation SILValue
  | UnownedReleaseInst SILLocation SILValue

datatype DeallocOrIndexInst =
    DeallocStackInst SILLocation SILValue
  | DeallocRefInst SILLocation SILValue
  | DeallocBoxInst SILLocation SILType SILValue
  | DestroyAddrInst SILLocation SILValue
  | IndexAddrInst SILLocation SILValue SILValue
  | IndexRawPointerInst SILLocation SILValue SILValue

datatype TermInst =
    UnreachableInst SILLocation
  | ReturnInst SILLocation SILValue
  | AutoreleaseReturnInst SILLocation SILValue
  | BranchInst SILLocation SILBasicBlockRef "SILValue list"
  | CondBranchInst SILLocation SILValue SILBasicBlockRef "SILValue list" SILBasicBlockRef "SILValue list"
  | CheckedCastBranchInst SILLocation CheckedCastKind SILValue SILType SILBasicBlockRef SILBasicBlockRef
  | SwitchIntInst SILLocation SILValue "SILBasicBlockRef option" "(APInt \<times> SILBasicBlockRef) list"
  | SwitchEnumInst SILLocation SILValue "SILBasicBlockRef option" "(Decl \<times> SILBasicBlockRef) list"
  | DestructiveSwitchEnumAddrInst SILLocation SILValue "SILBasicBlockRef option" "(Decl \<times> SILBasicBlockRef) list"
  | DynamicMethodBranchInst SILLocation SILValue SILDeclRef SILBasicBlockRef SILBasicBlockRef

datatype SILInstruction =
    Allocation AllocationInst
  | FunctionOrLiteral FunctionAndLiteralInst
  | Access AccessInst
  | Conversion ConversionInst
  | Aggregate AggregateInst
  | TypeValue TypeValueInst
  | Projection ProjectionInst
  | Method MethodInst
  | Existential ExistentialInst
  | RefCounting RefCountingInst
  | DeallocOrIndex DeallocOrIndexInst
  | Term TermInst

text \<open>
  \<^verbatim>\<open>getKind()\<close> returns the enumerator of the instruction's class; an enumerator is
  identified by its name.
\<close>

type_synonym ValueKind = string

primrec getKind_Allocation :: "AllocationInst \<Rightarrow> ValueKind" where
  "getKind_Allocation (AllocStackInst Loc ElementType) = ''AllocStackInst''"
| "getKind_Allocation (AllocRefInst Loc Ty) = ''AllocRefInst''"
| "getKind_Allocation (AllocBoxInst Loc ElementType) = ''AllocBoxInst''"
| "getKind_Allocation (AllocArrayInst Loc ElementType NumElements) = ''AllocArrayInst''"

primrec getKind_FunctionOrLiteral :: "FunctionAndLiteralInst \<Rightarrow> ValueKind" where
  "getKind_FunctionOrLiteral (ApplyInst Loc Callee SubstCalleeType Ty Substitutions Arguments isTransparent) = ''ApplyInst''"
| "getKind_FunctionOrLiteral (PartialApplyInst Loc Callee SubstCalleeType Substitutions Arguments Ty) = ''PartialApplyInst''"
| "getKind_FunctionOrLiteral (BuiltinFunctionRefInst Loc Fn Ty) = ''BuiltinFunctionRefInst''"
| "getKind_FunctionOrLiteral (FunctionRefInst Loc Fn) = ''FunctionRefInst''"
| "getKind_FunctionOrLiteral (GlobalAddrInst Loc GlobalDecl Ty) = ''GlobalAddrInst''"
| "getKind_FunctionOrLiteral (IntegerLiteralInst Loc Ty Val) = ''IntegerLiteralInst''"
| "getKind_FunctionOrLiteral (FloatLiteralInst Loc Ty Val) = ''FloatLiteralInst''"
| "getKind_FunctionOrLiteral (StringLiteralInst Loc Ty Val) = ''StringLiteralInst''"

primrec getKind_Access :: "AccessInst \<Rightarrow> ValueKind" where
  "getKind_Access (LoadInst Loc Operand) = ''LoadInst''"
| "getKind_Access (StoreInst Loc Src Dest) = ''StoreInst''"
| "getKind_Access (AssignInst Loc Src Dest) = ''AssignInst''"
| "getKind_Access (MarkUninitializedInst Loc Operand) = ''MarkUninitializedInst''"
| "getKind_Access (MarkFunctionEscapeInst Loc Elements) = ''MarkFunctionEscapeInst''"
| "getKind_Access (LoadWeakInst Loc Operand isTake) = ''LoadWeakInst''"
| "getKind_Access (StoreWeakInst Loc Src Dest isInitializationOfDest) = ''StoreWeakInst''"
| "getKind_Access (InitializeVarInst Loc Operand canDefaultConstruct) = ''InitializeVarInst''"
| "getKind_Access (CopyAddrInst Loc Src Dest isTakeOfSrc isInitializationOfDest) = ''CopyAddrInst''"

primrec getKind_Conversion :: "ConversionInst \<Rightarrow> ValueKind" where
  "getKind_Conversion (ConvertFunctionInst Loc Operand Ty) = ''ConvertFunctionInst''"
| "getKind_Conversion (CoerceInst Loc Operand Ty) = ''CoerceInst''"
| "getKind_Conversion (UpcastInst Loc Operand Ty) = ''UpcastInst''"
| "getKind_Conversion (AddressToPointerInst Loc Operand Ty) = ''AddressToPointerInst''"
| "getKind_Conversion (PointerToAddressInst Loc Operand Ty) = ''PointerToAddressInst''"
| "getKind_Conversion (RefToObjectPointerInst Loc Operand Ty) = ''RefToObjectPointerInst''"
| "getKind_Conversion (ObjectPointerToRefInst Loc Operand Ty) = ''ObjectPointerToRefInst''"
| "getKind_Conversion (RefToRawPointerInst Loc Operand Ty) = ''RefToRawPointerInst''"
| "getKind_Conversion (RawPointerToRefInst Loc Operand Ty) = ''RawPointerToRefInst''"
| "getKind_Conversion (RefToUnownedInst Loc Operand Ty) = ''RefToUnownedInst''"
| "getKind_Conversion (UnownedToRefInst Loc Operand Ty) = ''UnownedToRefInst''"
| "getKind_Conversion (ThinToThickFunctionInst Loc Operand Ty) = ''ThinToThickFunctionInst''"
| "getKind_Conversion (ConvertCCInst Loc Operand Ty) = ''ConvertCCInst''"
| "getKind_Conversion (BridgeToBlockInst Loc Operand Ty) = ''BridgeToBlockInst''"
| "getKind_Conversion (ArchetypeRefToSuperInst Loc Operand Ty) = ''ArchetypeRefToSuperInst''"
| "getKind_Conversion (IsNonnullInst Loc Operand) = ''IsNonnullInst''"
| "getKind_Conversion (UnconditionalCheckedCastInst Loc CastKind Operand Ty) = ''UnconditionalCheckedCastInst''"

primrec getKind_Aggregate :: "AggregateInst \<Rightarrow> ValueKind" where
  "getKind_Aggregate (CopyValueInst Loc Operand) = ''CopyValueInst''"
| "getKind_Aggregate (DestroyValueInst Loc Operand) = ''DestroyValueInst''"
| "getKind_Aggregate (StructInst Loc Ty Elements) = ''StructInst''"
| "getKind_Aggregate (TupleInst Loc Ty Elements) = ''TupleInst''"
| "getKind_Aggregate (EnumInst Loc Operand Element Ty) = ''EnumInst''"
| "getKind_Aggregate (EnumDataAddrInst Loc Operand Element Ty) = ''EnumDataAddrInst''"
| "getKind_Aggregate (InjectEnumAddrInst Loc Operand Element) = ''InjectEnumAddrInst''"

primrec getKind_TypeValue :: "TypeValueInst \<Rightarrow> ValueKind" where
  "getKind_TypeValue (BuiltinZeroInst Loc Ty) = ''BuiltinZeroInst''"
| "getKind_TypeValue (MetatypeInst Loc Ty) = ''MetatypeInst''"
| "getKind_TypeValue (ClassMetatypeInst Loc Ty Operand) = ''ClassMetatypeInst''"
| "getKind_TypeValue (ArchetypeMetatypeInst Loc Ty Operand) = ''ArchetypeMetatypeInst''"
| "getKind_TypeValue (ProtocolMetatypeInst Loc Ty Operand) = ''ProtocolMetatypeInst''"
| "getKind_TypeValue (ModuleInst Loc Ty) = ''ModuleInst''"

primrec getKind_Projection :: "ProjectionInst \<Rightarrow> ValueKind" where
  "getKind_Projection (TupleExtractInst Loc Operand FieldNo Ty) = ''TupleExtractInst''"
| "getKind_Projection (TupleElementAddrInst Loc Operand FieldNo Ty) = ''TupleElementAddrInst''"
| "getKind_Projection (StructExtractInst Loc Operand FieldDecl Ty) = ''StructExtractInst''"
| "getKind_Projection (StructElementAddrInst Loc Operand FieldDecl Ty) = ''StructElementAddrInst''"
| "getKind_Projection (RefElementAddrInst Loc Operand FieldDecl Ty) = ''RefElementAddrInst''"

primrec getKind_Method :: "MethodInst \<Rightarrow> ValueKind" where
  "getKind_Method (ClassMethodInst Loc Operand Member Ty isVolatile) = ''ClassMethodInst''"
| "getKind_Method (SuperMethodInst Loc Operand Member Ty isVolatile) = ''SuperMethodInst''"
| "getKind_Method (ArchetypeMethodInst Loc LookupArchetype Member Ty isVolatile) = ''ArchetypeMethodInst''"
| "getKind_Method (ProtocolMethodInst Loc Operand Member Ty isVolatile) = ''ProtocolMethodInst''"
| "getKind_Method (DynamicMethodInst Loc Operand Member Ty isVolatile) = ''DynamicMethodInst''"

primrec getKind_Existential :: "ExistentialInst \<Rightarrow> ValueKind" where
  "getKind_Existential (ProjectExistentialInst Loc Operand Ty) = ''ProjectExistentialInst''"
| "getKind_Existential (ProjectExistentialRefInst Loc Operand Ty) = ''ProjectExistentialRefInst''"
| "getKind_Existential (InitExistentialInst Loc Operand ConcreteType Conformances) = ''InitExistentialInst''"
| "getKind_Existential (InitExistentialRefInst Loc Ty Operand Conformances) = ''InitExistentialRefInst''"
| "getKind_Existential (DeinitExistentialInst Loc Operand) = ''DeinitExistentialInst''"
| "getKind_Existential (UpcastExistentialInst Loc SrcExistential DestExistential isTakeOfSrc) = ''UpcastExistentialInst''"
| "getKind_Existential (UpcastExistentialRefInst Loc Operand Ty) = ''UpcastExistentialRefInst''"

primrec getKind_RefCounting :: "RefCountingInst \<Rightarrow> ValueKind" where
  "getKind_RefCounting (StrongRetainInst Loc Operand) = ''StrongRetainInst''"
| "getKind_RefCounting (StrongRetainAutoreleasedInst Loc Operand) = ''StrongRetainAutoreleasedInst''"
| "getKind_RefCounting (StrongReleaseInst Loc Operand) = ''StrongReleaseInst''"
| "getKind_RefCounting (StrongRetainUnownedInst Loc Operand) = ''StrongRetainUnownedInst''"
| "getKind_RefCounting (UnownedRetainInst Loc Operand) = ''UnownedRetainInst''"
| "getKind_RefCounting (UnownedReleaseInst Loc Operand) = ''UnownedReleaseInst''"

primrec getKind_DeallocOrIndex :: "DeallocOrIndexInst \<Rightarrow> ValueKind" where
  "getKind_DeallocOrIndex (DeallocStackInst Loc Operand) = ''DeallocStackInst''"
| "getKind_DeallocOrIndex (DeallocRefInst Loc Operand) = ''DeallocRefInst''"
| "getKind_DeallocOrIndex (DeallocBoxInst Loc ElementType Operand) = ''DeallocBoxInst''"
| "getKind_DeallocOrIndex (DestroyAddrInst Loc Operand) = ''DestroyAddrInst''"
| "getKind_DeallocOrIndex (IndexAddrInst Loc Base Index) = ''IndexAddrInst''"
| "getKind_DeallocOrIndex (IndexRawPointerInst Loc Base Index) = ''IndexRawPointerInst''"

primrec getKind_Term :: "TermInst \<Rightarrow> ValueKind" where
  "getKind_Term (UnreachableInst Loc) = ''UnreachableInst''"
| "getKind_Term (ReturnInst Loc Operand) = ''ReturnInst''"
| "getKind_Term (AutoreleaseReturnInst Loc Operand) = ''AutoreleaseReturnInst''"
| "getKind_Term (BranchInst Loc DestBB Args) = ''BranchInst''"
| "getKind_Term (CondBranchInst Loc Condition TrueBB TrueArgs FalseBB FalseArgs) = ''CondBranchInst''"
| "getKind_Term (CheckedCastBranchInst Loc CastKind Operand CastType SuccessBB FailureBB) = ''CheckedCastBranchInst''"
| "getKind_Term (SwitchIntInst Loc Operand DefaultBB Cases) = ''SwitchIntInst''"
| "getKind_Term (SwitchEnumInst Loc Operand DefaultBB Cases) = ''SwitchEnumInst''"
| "getKind_Term (DestructiveSwitchEnumAddrInst Loc Operand DefaultBB Cases) = ''DestructiveSwitchEnumAddrInst''"
| "getKind_Term (DynamicMethodBranchInst Loc Operand Member HasMethodBB NoMethodBB) = ''DynamicMethodBranchInst''"

primrec getKind :: "SILInstruction \<Rightarrow> ValueKind" where
  "getKind (Allocation I) = getKind_Allocation I"
| "getKind (FunctionOrLiteral I) = getKind_FunctionOrLiteral I"
| "getKind (Access I) = getKind_Access I"
| "getKind (Conversion I) = getKind_Conversion I"
| "getKind (Aggregate I) = getKind_Aggregate I"
| "getKind (TypeValue I) = getKind_TypeValue I"
| "getKind (Projection I) = getKind_Projection I"
| "getKind (Method I) = getKind_Method I"
| "getKind (Existential I) = getKind_Existential I"
| "getKind (RefCounting I) = getKind_RefCounting I"
| "getKind (DeallocOrIndex I) = getKind_DeallocOrIndex I"
| "getKind (Term I) = getKind_Term I"

section \<open>The cloner's state\<close>

text \<open>
  The failures of the header: the four assertions of \<^verbatim>\<open>remapValue\<close> and
  \<^verbatim>\<open>remapBasicBlock\<close>, the \<^verbatim>\<open>llvm_unreachable\<close> of \<^verbatim>\<open>remapValue\<close>, and the assertion of
  \<^verbatim>\<open>SILInstructionCloner::clone\<close>. Each of them ends the operation, so a failing function
  returns \<open>Inl\<close> of the failure and no state. The assertions are modelled as compiled in.
  The last two are the dereferences that the block walker performs without a check: a
  block pointer that designates no block of the function walked, and \<^verbatim>\<open>--BB->end()\<close> on a
  block without instructions.
\<close>

datatype error =
    NonZeroResultNumberOfArgument
  | UnmappedArgument
  | UnmappedInstruction
  | UnknownValueType
  | UnmappedBasicBlock
  | CloneAssertion
  | InvalidBasicBlock
  | NoTerminator

definition bindE :: "error + 'a \<Rightarrow> ('a \<Rightarrow> error + 'b) \<Rightarrow> error + 'b" where
  "bindE m f = (case m of Inl e \<Rightarrow> Inl e | Inr x \<Rightarrow> f x)"

text \<open>
  The members of \<^verbatim>\<open>SILCloner\<close> and what the cloner creates.

  \<^item> \<open>InsertionBB\<close> is the block of \<^verbatim>\<open>Builder\<close>'s insertion point (\<open>None\<close>: the builder has
    no insertion point and leaves a new instruction outside every block).
  \<^item> \<open>NextAddr\<close> is the allocator behind \<^verbatim>\<open>new (F.getModule())\<close> and behind the builder's
    factories: every object created gets the next address.
  \<^item> \<open>Blocks\<close> is \<^verbatim>\<open>F.getBlocks()\<close>, the layout of the function cloned into.
  \<^item> \<open>NewArgs\<close> lists the block arguments created, in creation order, as
    (address, parent block, type); \<open>NewInsts\<close> lists the instructions created by the
    builder, in creation order, as (address, block inserted into, instruction).
  \<^item> \<open>InsertBeforeBB\<close>, \<open>ArgumentMap\<close>, \<open>InstructionMap\<close> and \<open>BBMap\<close> are the members of
    these names; a null \<^verbatim>\<open>InsertBeforeBB\<close> is \<open>None\<close>.
  \<^item> \<open>Visited\<close> and \<open>Dispatched\<close> are history variables, which no code reads: the blocks
    that \<^verbatim>\<open>visitSILBasicBlock\<close> was called on and the instructions that \<^verbatim>\<open>visit\<close> was
    called on, in call order.

  The IR that is cloned is never written to: the builder inserts into the blocks that the
  cloner creates or that its client chose, not into the blocks walked. The model therefore
  reads the original blocks from a value of their own (\<open>SILFunction\<close> below) and keeps the
  created objects in the state.
\<close>

record SILCloner =
  InsertionBB :: "SILBasicBlockRef option"
  NextAddr :: nat
  Blocks :: "SILBasicBlockRef list"
  NewArgs :: "(nat \<times> SILBasicBlockRef \<times> SILType) list"
  NewInsts :: "(nat \<times> SILBasicBlockRef option \<times> SILInstruction) list"
  InsertBeforeBB :: "SILBasicBlockRef option"
  ArgumentMap :: "nat \<rightharpoonup> SILValue"
  InstructionMap :: "nat \<rightharpoonup> nat"
  BBMap :: "SILBasicBlockRef \<rightharpoonup> SILBasicBlockRef"
  Visited :: "SILBasicBlockRef list"
  Dispatched :: "nat list"

text \<open>
  \<^verbatim>\<open>DenseMap::insert\<close> adds the pair only if the key has no entry yet; an existing entry is
  kept as it is.
\<close>

definition DenseMap_insert :: "('k \<rightharpoonup> 'v) \<Rightarrow> 'k \<Rightarrow> 'v \<Rightarrow> ('k \<rightharpoonup> 'v)" where
  "DenseMap_insert m k v = (if m k = None then m(k \<mapsto> v) else m)"

section \<open>Remap hooks\<close>

text \<open>
  The default \<^verbatim>\<open>SILCloner<ImplClass>::remapValue\<close> (lines 99 to 117). \<^verbatim>\<open>ArgumentMap[A]\<close> and
  \<^verbatim>\<open>InstructionMap[I]\<close> yield a null value for a key without entry, which the assertion
  that follows rejects. The maps of the model hold no null values: an entry is the value
  or the address of a node.
\<close>

fun SILCloner_remapValue :: "SILCloner \<Rightarrow> SILValue \<Rightarrow> error + SILValue" where
  "SILCloner_remapValue S (SILValue (SILArgument A) n) =
     (if n \<noteq> 0 then Inl NonZeroResultNumberOfArgument
      else case ArgumentMap S A of
             None \<Rightarrow> Inl UnmappedArgument
           | Some MappedValue \<Rightarrow> Inr MappedValue)"
| "SILCloner_remapValue S (SILValue (SILInstruction I) n) =
     (case InstructionMap S I of
        None \<Rightarrow> Inl UnmappedInstruction
      | Some V \<Rightarrow> Inr (SILValue (SILInstruction V) n))"
| "SILCloner_remapValue S (SILValue (OtherValue x) n) = Inl UnknownValueType"

text \<open>The default \<^verbatim>\<open>SILCloner<ImplClass>::remapBasicBlock\<close> (lines 119 to 125).\<close>

definition SILCloner_remapBasicBlock :: "SILCloner \<Rightarrow> SILBasicBlockRef \<Rightarrow> error + SILBasicBlockRef" where
  "SILCloner_remapBasicBlock S BB =
     (case BBMap S BB of
        None \<Rightarrow> Inl UnmappedBasicBlock
      | Some MappedBB \<Rightarrow> Inr MappedBB)"

text \<open>
  \<^verbatim>\<open>ImplClass\<close> is the derived class of the CRTP: \<^verbatim>\<open>static_cast<ImplClass*>(this)->remapType(Ty)\<close>
  calls the derived class's function if it declares one and the default otherwise. The
  model passes the five remap functions as a record. The two that read the maps get the
  state as an argument. \<^verbatim>\<open>postProcess\<close> is modelled at its default.
\<close>

record ImplClass =
  remapLocation :: "SILLocation \<Rightarrow> SILLocation"
  remapType :: "SILType \<Rightarrow> SILType"
  remapValue :: "SILCloner \<Rightarrow> SILValue \<Rightarrow> error + SILValue"
  remapFunction :: "SILFunctionRef \<Rightarrow> SILFunctionRef"
  remapBasicBlock :: "SILCloner \<Rightarrow> SILBasicBlockRef \<Rightarrow> error + SILBasicBlockRef"

text \<open>The defaults of lines 59 to 63.\<close>

definition SILCloner_Impl :: ImplClass where
  "SILCloner_Impl =
     \<lparr> remapLocation = (\<lambda>Loc. Loc),
       remapType = (\<lambda>Ty. Ty),
       remapValue = SILCloner_remapValue,
       remapFunction = (\<lambda>Fn. Fn),
       remapBasicBlock = SILCloner_remapBasicBlock \<rparr>"

definition getOpLocation :: "ImplClass \<Rightarrow> SILLocation \<Rightarrow> SILLocation" where
  "getOpLocation C Loc = remapLocation C Loc"

definition getOpType :: "ImplClass \<Rightarrow> SILType \<Rightarrow> SILType" where
  "getOpType C Ty = remapType C Ty"

definition getOpValue :: "ImplClass \<Rightarrow> SILCloner \<Rightarrow> SILValue \<Rightarrow> error + SILValue" where
  "getOpValue C S v = remapValue C S v"

text \<open>
  \<^verbatim>\<open>getOpValueArray\<close> remaps the elements from index 0 upwards; the first failure ends the
  loop.
\<close>

fun getOpValueArray :: "ImplClass \<Rightarrow> SILCloner \<Rightarrow> SILValue list \<Rightarrow> error + SILValue list" where
  "getOpValueArray C S [] = Inr []"
| "getOpValueArray C S (v # Values) =
     bindE (remapValue C S v)
       (\<lambda>v'. bindE (getOpValueArray C S Values) (\<lambda>Ret. Inr (v' # Ret)))"

definition getOpFunction :: "ImplClass \<Rightarrow> SILFunctionRef \<Rightarrow> SILFunctionRef" where
  "getOpFunction C Fn = remapFunction C Fn"

definition getOpBasicBlock :: "ImplClass \<Rightarrow> SILCloner \<Rightarrow> SILBasicBlockRef \<Rightarrow> error + SILBasicBlockRef" where
  "getOpBasicBlock C S BB = remapBasicBlock C S BB"

text \<open>
  The default \<^verbatim>\<open>postProcess\<close> (lines 127 to 133) inserts the pair into \<^verbatim>\<open>InstructionMap\<close> and
  returns the clone, converted to a \<^verbatim>\<open>SILValue\<close>: its result 0.
\<close>

definition postProcess :: "nat \<Rightarrow> nat \<Rightarrow> SILCloner \<Rightarrow> SILValue \<times> SILCloner" where
  "postProcess Orig Cloned S =
     (SILValue (SILInstruction Cloned) 0,
      S\<lparr>InstructionMap := DenseMap_insert (InstructionMap S) Orig Cloned\<rparr>)"

definition doPostProcess :: "nat \<Rightarrow> nat \<Rightarrow> SILCloner \<Rightarrow> SILValue \<times> SILCloner" where
  "doPostProcess Orig Cloned S = postProcess Orig Cloned S"

section \<open>Instruction clone rules\<close>

text \<open>
  Every rule of the header has the form
  \<^verbatim>\<open>return doPostProcess(Inst, Builder.createX(...))\<close>, after the statements that fill the
  argument arrays. The functions \<open>clone_...\<close> below compute, for each class, the instruction
  that the factory call of its rule constructs: one equation per \<^verbatim>\<open>visitX\<close> of the header,
  with the factory's arguments as the header writes them. The arrays and the switch
  targets are remapped first, as the statements before the \<^verbatim>\<open>return\<close> do; the remaining
  arguments are evaluated from left to right (C++ leaves their order open; the order only
  decides which of two failures is reported).

  The loops of the three switch rules push one pair per case, \<^verbatim>\<open>getCase(i).first\<close> as it is
  and \<^verbatim>\<open>getCase(i).second\<close> remapped; \<^verbatim>\<open>DefaultBB\<close> stays null unless \<^verbatim>\<open>hasDefault()\<close>.
\<close>

fun getOpCaseBBs :: "ImplClass \<Rightarrow> SILCloner \<Rightarrow> ('a \<times> SILBasicBlockRef) list \<Rightarrow> error + ('a \<times> SILBasicBlockRef) list" where
  "getOpCaseBBs C S [] = Inr []"
| "getOpCaseBBs C S (c # Cases) =
     bindE (getOpBasicBlock C S (snd c))
       (\<lambda>BB'. bindE (getOpCaseBBs C S Cases) (\<lambda>CaseBBs. Inr ((fst c, BB') # CaseBBs)))"

definition getOpDefaultBB :: "ImplClass \<Rightarrow> SILCloner \<Rightarrow> SILBasicBlockRef option \<Rightarrow> error + SILBasicBlockRef option" where
  "getOpDefaultBB C S DefaultBB =
     (case DefaultBB of
        None \<Rightarrow> Inr None
      | Some BB \<Rightarrow> bindE (getOpBasicBlock C S BB) (\<lambda>BB'. Inr (Some BB')))"

primrec clone_Allocation :: "ImplClass \<Rightarrow> SILCloner \<Rightarrow> AllocationInst \<Rightarrow> error + AllocationInst" where
  "clone_Allocation C S (AllocStackInst Loc ElementType) =
     Inr (AllocStackInst (getOpLocation C Loc) (getOpType C ElementType))"
| "clone_Allocation C S (AllocRefInst Loc Ty) =
     Inr (AllocRefInst (getOpLocation C Loc) (getOpType C Ty))"
| "clone_Allocation C S (AllocBoxInst Loc ElementType) =
     Inr (AllocBoxInst (getOpLocation C Loc) (getOpType C ElementType))"
| "clone_Allocation C S (AllocArrayInst Loc ElementType NumElements) =
     bindE (getOpValue C S NumElements)
       (\<lambda>NumElements'. Inr (AllocArrayInst (getOpLocation C Loc) (getOpType C ElementType) NumElements'))"

primrec clone_FunctionOrLiteral :: "ImplClass \<Rightarrow> SILCloner \<Rightarrow> FunctionAndLiteralInst \<Rightarrow> error + FunctionAndLiteralInst" where
  "clone_FunctionOrLiteral C S (ApplyInst Loc Callee SubstCalleeType Ty Substitutions Arguments isTransparent) =
     bindE (getOpValueArray C S Arguments)
       (\<lambda>Arguments'. bindE (getOpValue C S Callee)
       (\<lambda>Callee'. Inr (ApplyInst (getOpLocation C Loc) Callee' (getOpType C SubstCalleeType) (getOpType C Ty) Substitutions Arguments' isTransparent)))"
| "clone_FunctionOrLiteral C S (PartialApplyInst Loc Callee SubstCalleeType Substitutions Arguments Ty) =
     bindE (getOpValueArray C S Arguments)
       (\<lambda>Arguments'. bindE (getOpValue C S Callee)
       (\<lambda>Callee'. Inr (PartialApplyInst (getOpLocation C Loc) Callee' (getOpType C SubstCalleeType) Substitutions Arguments' (getOpType C Ty))))"
| "clone_FunctionOrLiteral C S (BuiltinFunctionRefInst Loc Fn Ty) =
     Inr (BuiltinFunctionRefInst (getOpLocation C Loc) Fn (getOpType C Ty))"
| "clone_FunctionOrLiteral C S (FunctionRefInst Loc Fn) =
     Inr (FunctionRefInst (getOpLocation C Loc) (getOpFunction C Fn))"
| "clone_FunctionOrLiteral C S (GlobalAddrInst Loc GlobalDecl Ty) =
     Inr (GlobalAddrInst (getOpLocation C Loc) GlobalDecl (getOpType C Ty))"
| "clone_FunctionOrLiteral C S (IntegerLiteralInst Loc Ty Val) =
     Inr (IntegerLiteralInst (getOpLocation C Loc) (getOpType C Ty) Val)"
| "clone_FunctionOrLiteral C S (FloatLiteralInst Loc Ty Val) =
     Inr (FloatLiteralInst (getOpLocation C Loc) (getOpType C Ty) Val)"
| "clone_FunctionOrLiteral C S (StringLiteralInst Loc Ty Val) =
     Inr (StringLiteralInst (getOpLocation C Loc) (getOpType C Ty) Val)"

primrec clone_Access :: "ImplClass \<Rightarrow> SILCloner \<Rightarrow> AccessInst \<Rightarrow> error + AccessInst" where
  "clone_Access C S (LoadInst Loc Operand) =
     bindE (getOpValue C S Operand)
       (\<lambda>Operand'. Inr (LoadInst (getOpLocation C Loc) Operand'))"
| "clone_Access C S (StoreInst Loc Src Dest) =
     bindE (getOpValue C S Src)
       (\<lambda>Src'. bindE (getOpValue C S Dest)
       (\<lambda>Dest'. Inr (StoreInst (getOpLocation C Loc) Src' Dest')))"
| "clone_Access C S (AssignInst Loc Src Dest) =
     bindE (getOpValue C S Src)
       (\<lambda>Src'. bindE (getOpValue C S Dest)
       (\<lambda>Dest'. Inr (AssignInst (getOpLocation C Loc) Src' Dest')))"
| "clone_Access C S (MarkUninitializedInst Loc Operand) =
     bindE (getOpValue C S Operand)
       (\<lambda>Operand'. Inr (MarkUninitializedInst (getOpLocation C Loc) Operand'))"
| "clone_Access C S (MarkFunctionEscapeInst Loc Elements) =
     bindE (getOpValueArray C S Elements)
       (\<lambda>Elements'. Inr (MarkFunctionEscapeInst (getOpLocation C Loc) Elements'))"
| "clone_Access C S (LoadWeakInst Loc Operand isTake) =
     bindE (getOpValue C S Operand)
       (\<lambda>Operand'. Inr (LoadWeakInst (getOpLocation C Loc) Operand' isTake))"
| "clone_Access C S (StoreWeakInst Loc Src Dest isInitializationOfDest) =
     bindE (getOpValue C S Src)
       (\<lambda>Src'. bindE (getOpValue C S Dest)
       (\<lambda>Dest'. Inr (StoreWeakInst (getOpLocation C Loc) Src' Dest' isInitializationOfDest)))"
| "clone_Access C S (InitializeVarInst Loc Operand canDefaultConstruct) =
     bindE (getOpValue C S Operand)
       (\<lambda>Operand'. Inr (InitializeVarInst (getOpLocation C Loc) Operand' canDefaultConstruct))"
| "clone_Access C S (CopyAddrInst Loc Src Dest isTakeOfSrc isInitializationOfDest) =
     bindE (getOpValue C S Src)
       (\<lambda>Src'. bindE (getOpValue C S Dest)
       (\<lambda>Dest'. Inr (CopyAddrInst (getOpLocation C Loc) Src' Dest' isTakeOfSrc isInitializationOfDest)))"

primrec clone_Conversion :: "ImplClass \<Rightarrow> SILCloner \<Rightarrow> ConversionInst \<Rightarrow> error + ConversionInst" where
  "clone_Conversion C S (ConvertFunctionInst Loc Operand Ty) =
     bindE (getOpValue C S Operand)
       (\<lambda>Operand'. Inr (ConvertFunctionInst (getOpLocation C Loc) Operand' (getOpType C Ty)))"
| "clone_Conversion C S (CoerceInst Loc Operand Ty) =
     bindE (getOpValue C S Operand)
       (\<lambda>Operand'. Inr (CoerceInst (getOpLocation C Loc) Operand' (getOpType C Ty)))"
| "clone_Conversion C S (UpcastInst Loc Operand Ty) =
     bindE (getOpValue C S Operand)
       (\<lambda>Operand'. Inr (UpcastInst (getOpLocation C Loc) Operand' (getOpType C Ty)))"
| "clone_Conversion C S (AddressToPointerInst Loc Operand Ty) =
     bindE (getOpValue C S Operand)
       (\<lambda>Operand'. Inr (AddressToPointerInst (getOpLocation C Loc) Operand' (getOpType C Ty)))"
| "clone_Conversion C S (PointerToAddressInst Loc Operand Ty) =
     bindE (getOpValue C S Operand)
       (\<lambda>Operand'. Inr (PointerToAddressInst (getOpLocation C Loc) Operand' (getOpType C Ty)))"
| "clone_Conversion C S (RefToObjectPointerInst Loc Operand Ty) =
     bindE (getOpValue C S Operand)
       (\<lambda>Operand'. Inr (RefToObjectPointerInst (getOpLocation C Loc) Operand' (getOpType C Ty)))"
| "clone_Conversion C S (ObjectPointerToRefInst Loc Operand Ty) =
     bindE (getOpValue C S Operand)
       (\<lambda>Operand'. Inr (ObjectPointerToRefInst (getOpLocation C Loc) Operand' (getOpType C Ty)))"
| "clone_Conversion C S (RefToRawPointerInst Loc Operand Ty) =
     bindE (getOpValue C S Operand)
       (\<lambda>Operand'. Inr (RefToRawPointerInst (getOpLocation C Loc) Operand' (getOpType C Ty)))"
| "clone_Conversion C S (RawPointerToRefInst Loc Operand Ty) =
     bindE (getOpValue C S Operand)
       (\<lambda>Operand'. Inr (RawPointerToRefInst (getOpLocation C Loc) Operand' (getOpType C Ty)))"
| "clone_Conversion C S (RefToUnownedInst Loc Operand Ty) =
     bindE (getOpValue C S Operand)
       (\<lambda>Operand'. Inr (RefToUnownedInst (getOpLocation C Loc) Operand' (getOpType C Ty)))"
| "clone_Conversion C S (UnownedToRefInst Loc Operand Ty) =
     bindE (getOpValue C S Operand)
       (\<lambda>Operand'. Inr (UnownedToRefInst (getOpLocation C Loc) Operand' (getOpType C Ty)))"
| "clone_Conversion C S (ThinToThickFunctionInst Loc Operand Ty) =
     bindE (getOpValue C S Operand)
       (\<lambda>Operand'. Inr (ThinToThickFunctionInst (getOpLocation C Loc) Operand' (getOpType C Ty)))"
| "clone_Conversion C S (ConvertCCInst Loc Operand Ty) =
     bindE (getOpValue C S Operand)
       (\<lambda>Operand'. Inr (ConvertCCInst (getOpLocation C Loc) Operand' (getOpType C Ty)))"
| "clone_Conversion C S (BridgeToBlockInst Loc Operand Ty) =
     bindE (getOpValue C S Operand)
       (\<lambda>Operand'. Inr (BridgeToBlockInst (getOpLocation C Loc) Operand' (getOpType C Ty)))"
| "clone_Conversion C S (ArchetypeRefToSuperInst Loc Operand Ty) =
     bindE (getOpValue C S Operand)
       (\<lambda>Operand'. Inr (ArchetypeRefToSuperInst (getOpLocation C Loc) Operand' (getOpType C Ty)))"
| "clone_Conversion C S (IsNonnullInst Loc Operand) =
     bindE (getOpValue C S Operand)
       (\<lambda>Operand'. Inr (IsNonnullInst (getOpLocation C Loc) Operand'))"
| "clone_Conversion C S (UnconditionalCheckedCastInst Loc CastKind Operand Ty) =
     bindE (getOpValue C S Operand)
       (\<lambda>Operand'. Inr (UnconditionalCheckedCastInst (getOpLocation C Loc) CastKind Operand' (getOpType C Ty)))"

primrec clone_Aggregate :: "ImplClass \<Rightarrow> SILCloner \<Rightarrow> AggregateInst \<Rightarrow> error + AggregateInst" where
  "clone_Aggregate C S (CopyValueInst Loc Operand) =
     bindE (getOpValue C S Operand)
       (\<lambda>Operand'. Inr (CopyValueInst (getOpLocation C Loc) Operand'))"
| "clone_Aggregate C S (DestroyValueInst Loc Operand) =
     bindE (getOpValue C S Operand)
       (\<lambda>Operand'. Inr (DestroyValueInst (getOpLocation C Loc) Operand'))"
| "clone_Aggregate C S (StructInst Loc Ty Elements) =
     bindE (getOpValueArray C S Elements)
       (\<lambda>Elements'. Inr (StructInst (getOpLocation C Loc) (getOpType C Ty) Elements'))"
| "clone_Aggregate C S (TupleInst Loc Ty Elements) =
     bindE (getOpValueArray C S Elements)
       (\<lambda>Elements'. Inr (TupleInst (getOpLocation C Loc) (getOpType C Ty) Elements'))"
| "clone_Aggregate C S (EnumInst Loc Operand Element Ty) =
     bindE (case Operand of
              Some v \<Rightarrow> bindE (getOpValue C S v) (\<lambda>v'. Inr (Some v'))
            | None \<Rightarrow> Inr None)
       (\<lambda>Operand'. Inr (EnumInst (getOpLocation C Loc) Operand' Element (getOpType C Ty)))"
| "clone_Aggregate C S (EnumDataAddrInst Loc Operand Element Ty) =
     bindE (getOpValue C S Operand)
       (\<lambda>Operand'. Inr (EnumDataAddrInst (getOpLocation C Loc) Operand' Element (getOpType C Ty)))"
| "clone_Aggregate C S (InjectEnumAddrInst Loc Operand Element) =
     bindE (getOpValue C S Operand)
       (\<lambda>Operand'. Inr (InjectEnumAddrInst (getOpLocation C Loc) Operand' Element))"

primrec clone_TypeValue :: "ImplClass \<Rightarrow> SILCloner \<Rightarrow> TypeValueInst \<Rightarrow> error + TypeValueInst" where
  "clone_TypeValue C S (BuiltinZeroInst Loc Ty) =
     Inr (BuiltinZeroInst (getOpLocation C Loc) (getOpType C Ty))"
| "clone_TypeValue C S (MetatypeInst Loc Ty) =
     Inr (MetatypeInst (getOpLocation C Loc) (getOpType C Ty))"
| "clone_TypeValue C S (ClassMetatypeInst Loc Ty Operand) =
     bindE (getOpValue C S Operand)
       (\<lambda>Operand'. Inr (ClassMetatypeInst (getOpLocation C Loc) (getOpType C Ty) Operand'))"
| "clone_TypeValue C S (ArchetypeMetatypeInst Loc Ty Operand) =
     bindE (getOpValue C S Operand)
       (\<lambda>Operand'. Inr (ArchetypeMetatypeInst (getOpLocation C Loc) (getOpType C Ty) Operand'))"
| "clone_TypeValue C S (ProtocolMetatypeInst Loc Ty Operand) =
     bindE (getOpValue C S Operand)
       (\<lambda>Operand'. Inr (ProtocolMetatypeInst (getOpLocation C Loc) (getOpType C Ty) Operand'))"
| "clone_TypeValue C S (ModuleInst Loc Ty) =
     Inr (ModuleInst (getOpLocation C Loc) (getOpType C Ty))"

primrec clone_Projection :: "ImplClass \<Rightarrow> SILCloner \<Rightarrow> ProjectionInst \<Rightarrow> error + ProjectionInst" where
  "clone_Projection C S (TupleExtractInst Loc Operand FieldNo Ty) =
     bindE (getOpValue C S Operand)
       (\<lambda>Operand'. Inr (TupleExtractInst (getOpLocation C Loc) Operand' FieldNo (getOpType C Ty)))"
| "clone_Projection C S (TupleElementAddrInst Loc Operand FieldNo Ty) =
     bindE (getOpValue C S Operand)
       (\<lambda>Operand'. Inr (TupleElementAddrInst (getOpLocation C Loc) Operand' FieldNo (getOpType C Ty)))"
| "clone_Projection C S (StructExtractInst Loc Operand FieldDecl Ty) =
     bindE (getOpValue C S Operand)
       (\<lambda>Operand'. Inr (StructExtractInst (getOpLocation C Loc) Operand' FieldDecl (getOpType C Ty)))"
| "clone_Projection C S (StructElementAddrInst Loc Operand FieldDecl Ty) =
     bindE (getOpValue C S Operand)
       (\<lambda>Operand'. Inr (StructElementAddrInst (getOpLocation C Loc) Operand' FieldDecl (getOpType C Ty)))"
| "clone_Projection C S (RefElementAddrInst Loc Operand FieldDecl Ty) =
     bindE (getOpValue C S Operand)
       (\<lambda>Operand'. Inr (RefElementAddrInst (getOpLocation C Loc) Operand' FieldDecl (getOpType C Ty)))"

primrec clone_Method :: "ImplClass \<Rightarrow> SILCloner \<Rightarrow> MethodInst \<Rightarrow> error + MethodInst" where
  "clone_Method C S (ClassMethodInst Loc Operand Member Ty isVolatile) =
     bindE (getOpValue C S Operand)
       (\<lambda>Operand'. Inr (ClassMethodInst (getOpLocation C Loc) Operand' Member (getOpType C Ty) isVolatile))"
| "clone_Method C S (SuperMethodInst Loc Operand Member Ty isVolatile) =
     bindE (getOpValue C S Operand)
       (\<lambda>Operand'. Inr (SuperMethodInst (getOpLocation C Loc) Operand' Member (getOpType C Ty) isVolatile))"
| "clone_Method C S (ArchetypeMethodInst Loc LookupArchetype Member Ty isVolatile) =
     Inr (ArchetypeMethodInst (getOpLocation C Loc) (getOpType C LookupArchetype) Member (getOpType C Ty) isVolatile)"
| "clone_Method C S (ProtocolMethodInst Loc Operand Member Ty isVolatile) =
     bindE (getOpValue C S Operand)
       (\<lambda>Operand'. Inr (ProtocolMethodInst (getOpLocation C Loc) Operand' Member (getOpType C Ty) isVolatile))"
| "clone_Method C S (DynamicMethodInst Loc Operand Member Ty isVolatile) =
     bindE (getOpValue C S Operand)
       (\<lambda>Operand'. Inr (DynamicMethodInst (getOpLocation C Loc) Operand' Member (getOpType C Ty) isVolatile))"

primrec clone_Existential :: "ImplClass \<Rightarrow> SILCloner \<Rightarrow> ExistentialInst \<Rightarrow> error + ExistentialInst" where
  "clone_Existential C S (ProjectExistentialInst Loc Operand Ty) =
     bindE (getOpValue C S Operand)
       (\<lambda>Operand'. Inr (ProjectExistentialInst (getOpLocation C Loc) Operand' (getOpType C Ty)))"
| "clone_Existential C S (ProjectExistentialRefInst Loc Operand Ty) =
     bindE (getOpValue C S Operand)
       (\<lambda>Operand'. Inr (ProjectExistentialRefInst (getOpLocation C Loc) Operand' (getOpType C Ty)))"
| "clone_Existential C S (InitExistentialInst Loc Operand ConcreteType Conformances) =
     bindE (getOpValue C S Operand)
       (\<lambda>Operand'. Inr (InitExistentialInst (getOpLocation C Loc) Operand' (getOpType C ConcreteType) Conformances))"
| "clone_Existential C S (InitExistentialRefInst Loc Ty Operand Conformances) =
     bindE (getOpValue C S Operand)
       (\<lambda>Operand'. Inr (InitExistentialRefInst (getOpLocation C Loc) (getOpType C Ty) Operand' Conformances))"
| "clone_Existential C S (DeinitExistentialInst Loc Operand) =
     bindE (getOpValue C S Operand)
       (\<lambda>Operand'. Inr (DeinitExistentialInst (getOpLocation C Loc) Operand'))"
| "clone_Existential C S (UpcastExistentialInst Loc SrcExistential DestExistential isTakeOfSrc) =
     bindE (getOpValue C S SrcExistential)
       (\<lambda>SrcExistential'. bindE (getOpValue C S DestExistential)
       (\<lambda>DestExistential'. Inr (UpcastExistentialInst (getOpLocation C Loc) SrcExistential' DestExistential' isTakeOfSrc)))"
| "clone_Existential C S (UpcastExistentialRefInst Loc Operand Ty) =
     bindE (getOpValue C S Operand)
       (\<lambda>Operand'. Inr (UpcastExistentialRefInst (getOpLocation C Loc) Operand' (getOpType C Ty)))"

primrec clone_RefCounting :: "ImplClass \<Rightarrow> SILCloner \<Rightarrow> RefCountingInst \<Rightarrow> error + RefCountingInst" where
  "clone_RefCounting C S (StrongRetainInst Loc Operand) =
     bindE (getOpValue C S Operand)
       (\<lambda>Operand'. Inr (StrongRetainInst (getOpLocation C Loc) Operand'))"
| "clone_RefCounting C S (StrongRetainAutoreleasedInst Loc Operand) =
     bindE (getOpValue C S Operand)
       (\<lambda>Operand'. Inr (StrongRetainAutoreleasedInst (getOpLocation C Loc) Operand'))"
| "clone_RefCounting C S (StrongReleaseInst Loc Operand) =
     bindE (getOpValue C S Operand)
       (\<lambda>Operand'. Inr (StrongReleaseInst (getOpLocation C Loc) Operand'))"
| "clone_RefCounting C S (StrongRetainUnownedInst Loc Operand) =
     bindE (getOpValue C S Operand)
       (\<lambda>Operand'. Inr (StrongRetainUnownedInst (getOpLocation C Loc) Operand'))"
| "clone_RefCounting C S (UnownedRetainInst Loc Operand) =
     bindE (getOpValue C S Operand)
       (\<lambda>Operand'. Inr (UnownedRetainInst (getOpLocation C Loc) Operand'))"
| "clone_RefCounting C S (UnownedReleaseInst Loc Operand) =
     bindE (getOpValue C S Operand)
       (\<lambda>Operand'. Inr (UnownedReleaseInst (getOpLocation C Loc) Operand'))"

primrec clone_DeallocOrIndex :: "ImplClass \<Rightarrow> SILCloner \<Rightarrow> DeallocOrIndexInst \<Rightarrow> error + DeallocOrIndexInst" where
  "clone_DeallocOrIndex C S (DeallocStackInst Loc Operand) =
     bindE (getOpValue C S Operand)
       (\<lambda>Operand'. Inr (DeallocStackInst (getOpLocation C Loc) Operand'))"
| "clone_DeallocOrIndex C S (DeallocRefInst Loc Operand) =
     bindE (getOpValue C S Operand)
       (\<lambda>Operand'. Inr (DeallocRefInst (getOpLocation C Loc) Operand'))"
| "clone_DeallocOrIndex C S (DeallocBoxInst Loc ElementType Operand) =
     bindE (getOpValue C S Operand)
       (\<lambda>Operand'. Inr (DeallocBoxInst (getOpLocation C Loc) (getOpType C ElementType) Operand'))"
| "clone_DeallocOrIndex C S (DestroyAddrInst Loc Operand) =
     bindE (getOpValue C S Operand)
       (\<lambda>Operand'. Inr (DestroyAddrInst (getOpLocation C Loc) Operand'))"
| "clone_DeallocOrIndex C S (IndexAddrInst Loc Base Index) =
     bindE (getOpValue C S Base)
       (\<lambda>Base'. bindE (getOpValue C S Index)
       (\<lambda>Index'. Inr (IndexAddrInst (getOpLocation C Loc) Base' Index')))"
| "clone_DeallocOrIndex C S (IndexRawPointerInst Loc Base Index) =
     bindE (getOpValue C S Base)
       (\<lambda>Base'. bindE (getOpValue C S Index)
       (\<lambda>Index'. Inr (IndexRawPointerInst (getOpLocation C Loc) Base' Index')))"

primrec clone_Term :: "ImplClass \<Rightarrow> SILCloner \<Rightarrow> TermInst \<Rightarrow> error + TermInst" where
  "clone_Term C S (UnreachableInst Loc) =
     Inr (UnreachableInst (getOpLocation C Loc))"
| "clone_Term C S (ReturnInst Loc Operand) =
     bindE (getOpValue C S Operand)
       (\<lambda>Operand'. Inr (ReturnInst (getOpLocation C Loc) Operand'))"
| "clone_Term C S (AutoreleaseReturnInst Loc Operand) =
     bindE (getOpValue C S Operand)
       (\<lambda>Operand'. Inr (AutoreleaseReturnInst (getOpLocation C Loc) Operand'))"
| "clone_Term C S (BranchInst Loc DestBB Args) =
     bindE (getOpValueArray C S Args)
       (\<lambda>Args'. bindE (getOpBasicBlock C S DestBB)
       (\<lambda>DestBB'. Inr (BranchInst (getOpLocation C Loc) DestBB' Args')))"
| "clone_Term C S (CondBranchInst Loc Condition TrueBB TrueArgs FalseBB FalseArgs) =
     bindE (getOpValueArray C S TrueArgs)
       (\<lambda>TrueArgs'. bindE (getOpValueArray C S FalseArgs)
       (\<lambda>FalseArgs'. bindE (getOpValue C S Condition)
       (\<lambda>Condition'. bindE (getOpBasicBlock C S TrueBB)
       (\<lambda>TrueBB'. bindE (getOpBasicBlock C S FalseBB)
       (\<lambda>FalseBB'. Inr (CondBranchInst (getOpLocation C Loc) Condition' TrueBB' TrueArgs' FalseBB' FalseArgs'))))))"
| "clone_Term C S (CheckedCastBranchInst Loc CastKind Operand CastType SuccessBB FailureBB) =
     bindE (getOpValue C S Operand)
       (\<lambda>Operand'. bindE (getOpBasicBlock C S SuccessBB)
       (\<lambda>SuccessBB'. bindE (getOpBasicBlock C S FailureBB)
       (\<lambda>FailureBB'. Inr (CheckedCastBranchInst (getOpLocation C Loc) CastKind Operand' (getOpType C CastType) SuccessBB' FailureBB'))))"
| "clone_Term C S (SwitchIntInst Loc Operand DefaultBB Cases) =
     bindE (getOpDefaultBB C S DefaultBB)
       (\<lambda>DefaultBB'. bindE (getOpCaseBBs C S Cases)
       (\<lambda>Cases'. bindE (getOpValue C S Operand)
       (\<lambda>Operand'. Inr (SwitchIntInst (getOpLocation C Loc) Operand' DefaultBB' Cases'))))"
| "clone_Term C S (SwitchEnumInst Loc Operand DefaultBB Cases) =
     bindE (getOpDefaultBB C S DefaultBB)
       (\<lambda>DefaultBB'. bindE (getOpCaseBBs C S Cases)
       (\<lambda>Cases'. bindE (getOpValue C S Operand)
       (\<lambda>Operand'. Inr (SwitchEnumInst (getOpLocation C Loc) Operand' DefaultBB' Cases'))))"
| "clone_Term C S (DestructiveSwitchEnumAddrInst Loc Operand DefaultBB Cases) =
     bindE (getOpDefaultBB C S DefaultBB)
       (\<lambda>DefaultBB'. bindE (getOpCaseBBs C S Cases)
       (\<lambda>Cases'. bindE (getOpValue C S Operand)
       (\<lambda>Operand'. Inr (DestructiveSwitchEnumAddrInst (getOpLocation C Loc) Operand' DefaultBB' Cases'))))"
| "clone_Term C S (DynamicMethodBranchInst Loc Operand Member HasMethodBB NoMethodBB) =
     bindE (getOpValue C S Operand)
       (\<lambda>Operand'. bindE (getOpBasicBlock C S HasMethodBB)
       (\<lambda>HasMethodBB'. bindE (getOpBasicBlock C S NoMethodBB)
       (\<lambda>NoMethodBB'. Inr (DynamicMethodBranchInst (getOpLocation C Loc) Operand' Member HasMethodBB' NoMethodBB'))))"

primrec cloneInst :: "ImplClass \<Rightarrow> SILCloner \<Rightarrow> SILInstruction \<Rightarrow> error + SILInstruction" where
  "cloneInst C S (Allocation I) = bindE (clone_Allocation C S I) (\<lambda>I'. Inr (Allocation I'))"
| "cloneInst C S (FunctionOrLiteral I) = bindE (clone_FunctionOrLiteral C S I) (\<lambda>I'. Inr (FunctionOrLiteral I'))"
| "cloneInst C S (Access I) = bindE (clone_Access C S I) (\<lambda>I'. Inr (Access I'))"
| "cloneInst C S (Conversion I) = bindE (clone_Conversion C S I) (\<lambda>I'. Inr (Conversion I'))"
| "cloneInst C S (Aggregate I) = bindE (clone_Aggregate C S I) (\<lambda>I'. Inr (Aggregate I'))"
| "cloneInst C S (TypeValue I) = bindE (clone_TypeValue C S I) (\<lambda>I'. Inr (TypeValue I'))"
| "cloneInst C S (Projection I) = bindE (clone_Projection C S I) (\<lambda>I'. Inr (Projection I'))"
| "cloneInst C S (Method I) = bindE (clone_Method C S I) (\<lambda>I'. Inr (Method I'))"
| "cloneInst C S (Existential I) = bindE (clone_Existential C S I) (\<lambda>I'. Inr (Existential I'))"
| "cloneInst C S (RefCounting I) = bindE (clone_RefCounting C S I) (\<lambda>I'. Inr (RefCounting I'))"
| "cloneInst C S (DeallocOrIndex I) = bindE (clone_DeallocOrIndex C S I) (\<lambda>I'. Inr (DeallocOrIndex I'))"
| "cloneInst C S (Term I) = bindE (clone_Term C S I) (\<lambda>I'. Inr (Term I'))"

text \<open>
  Modelled from the spec: the builder (\<^verbatim>\<open>SILBuilder.h\<close> is not among the sources), which
  "given a target container and an insertion point, constructs new instructions of each
  kind and appends them". The factory of a class constructs a new instruction of that
  class from its arguments and inserts it at the insertion point. The new instruction gets
  the next address. \<^verbatim>\<open>createEnum\<close> takes a possibly null operand; an instruction constructed
  from the null value has no operand.
\<close>

definition Builder_create :: "SILInstruction \<Rightarrow> SILCloner \<Rightarrow> nat \<times> SILCloner" where
  "Builder_create I S =
     (NextAddr S,
      S\<lparr>NextAddr := NextAddr S + 1,
        NewInsts := NewInsts S @ [(NextAddr S, InsertionBB S, I)]\<rparr>)"

text \<open>
  \<^verbatim>\<open>visit\<close> dispatches on the class of the instruction and runs the class's rule: the
  factory call, then \<^verbatim>\<open>doPostProcess\<close> with the original and the clone. An instruction is
  passed as its address and its contents.
\<close>

definition visit :: "ImplClass \<Rightarrow> nat \<times> SILInstruction \<Rightarrow> SILCloner \<Rightarrow> error + SILValue \<times> SILCloner" where
  "visit C Inst S =
     (case cloneInst C S (snd Inst) of
        Inl e \<Rightarrow> Inl e
      | Inr I' \<Rightarrow>
          (case Builder_create I' (S\<lparr>Dispatched := Dispatched S @ [fst Inst]\<rparr>) of
             (Cloned, S') \<Rightarrow> Inr (doPostProcess (fst Inst) Cloned S')))"


section \<open>The standalone instruction cloner\<close>

text \<open>
  The constructor \<^verbatim>\<open>SILCloner(F)\<close> (lines 39 and 40): the builder of \<^verbatim>\<open>F\<close> without an
  insertion point, no \<^verbatim>\<open>InsertBeforeBB\<close>, empty maps. The allocator and the layout of \<^verbatim>\<open>F\<close>
  are given.
\<close>

definition SILCloner_new :: "nat \<Rightarrow> SILBasicBlockRef list \<Rightarrow> SILCloner" where
  "SILCloner_new Addr FBlocks =
     \<lparr> InsertionBB = None, NextAddr = Addr, Blocks = FBlocks, NewArgs = [], NewInsts = [],
       InsertBeforeBB = None, ArgumentMap = Map.empty, InstructionMap = Map.empty,
       BBMap = Map.empty, Visited = [], Dispatched = [] \<rparr>"

text \<open>
  \<^verbatim>\<open>SILInstructionCloner\<close> (lines 172 to 195) derives from
  \<^verbatim>\<open>SILCloner<SILInstructionCloner>\<close> and declares no remap function, so every hook is the
  default.
\<close>

definition SILInstructionCloner_Impl :: ImplClass where
  "SILInstructionCloner_Impl = SILCloner_Impl"

text \<open>The instruction that the builder created at an address.\<close>

definition getInst :: "SILCloner \<Rightarrow> nat \<Rightarrow> SILInstruction option" where
  "getInst S a = map_of (map (\<lambda>(a', bb, I). (a', I)) (NewInsts S)) a"

text \<open>
  \<^verbatim>\<open>clone\<close> runs the rule of the instruction and asserts that the value returned is
  result 0 of a node of the original's kind. The overloads for the single classes and the
  one for \<^verbatim>\<open>SILInstruction *\<close> have the same body.
\<close>

definition clone :: "nat \<times> SILInstruction \<Rightarrow> SILCloner \<Rightarrow> error + nat \<times> SILCloner" where
  "clone I S =
     (case visit SILInstructionCloner_Impl I S of
        Inl e \<Rightarrow> Inl e
      | Inr (cloned, S') \<Rightarrow>
          (case getDef cloned of
             SILInstruction Cloned \<Rightarrow>
               (case getInst S' Cloned of
                  Some I' \<Rightarrow>
                    if getKind I' = getKind (snd I) \<and> getResultNumber cloned = 0
                    then Inr (Cloned, S')
                    else Inl CloneAssertion
                | None \<Rightarrow> Inl CloneAssertion)
           | _ \<Rightarrow> Inl CloneAssertion))"

section \<open>The block walker\<close>

text \<open>
  Modelled from the spec: the blocks and functions of the IR (\<^verbatim>\<open>SILBasicBlock.h\<close> and
  \<^verbatim>\<open>SILFunction.h\<close> are not among the sources), a block being "an ordered sequence of
  instructions terminated by exactly one control-transfer instruction" that "owns a
  sequence of block parameters", a function "an ordered sequence of blocks". A block of
  the IR that is walked has its arguments (address and type), its instructions in
  order (address and contents), the last of which is the terminator, and the successor
  list \<^verbatim>\<open>getSuccs()\<close> of its terminator. A function is the list of its blocks with their
  addresses; the function walked is called \<open>Callee\<close> below, after the comment of
  \<^verbatim>\<open>visitSILBasicBlock\<close> (the \<^verbatim>\<open>F\<close> of the header is the function cloned into, whose layout is
  \<open>Blocks\<close>). The classes of blocks and functions are not part of the header; the model
  keeps of them what the walker reads.
\<close>

record SILBasicBlock =
  BBArgs :: "(nat \<times> SILType) list"
  InstList :: "(nat \<times> SILInstruction) list"
  Succs :: "SILBasicBlockRef list"

type_synonym SILFunction = "(SILBasicBlockRef \<times> SILBasicBlock) list"

definition getBB :: "SILFunction \<Rightarrow> SILBasicBlockRef \<Rightarrow> SILBasicBlock option" where
  "getBB Callee BB = map_of Callee BB"

text \<open>The loop of lines 144 and 145 over the instructions before the terminator.\<close>

fun visitInsts :: "ImplClass \<Rightarrow> (nat \<times> SILInstruction) list \<Rightarrow> SILCloner \<Rightarrow> error + SILCloner" where
  "visitInsts C [] S = Inr S"
| "visitInsts C (I # Is) S =
     (case visit C I S of
        Inl e \<Rightarrow> Inl e
      | Inr (v, S') \<Rightarrow> visitInsts C Is S')"

text \<open>
  The loop of lines 155 to 159: a new argument of the original argument's type
  (\<^verbatim>\<open>Arg->getType()\<close>) in \<open>MappedBB\<close>, inserted into \<^verbatim>\<open>ArgumentMap\<close> as its result 0.
\<close>

fun mapBBArgs :: "SILBasicBlockRef \<Rightarrow> (nat \<times> SILType) list \<Rightarrow> SILCloner \<Rightarrow> SILCloner" where
  "mapBBArgs MappedBB [] S = S"
| "mapBBArgs MappedBB (Arg # Args) S =
     mapBBArgs MappedBB Args
       (S\<lparr>NextAddr := NextAddr S + 1,
          NewArgs := NewArgs S @ [(NextAddr S, MappedBB, snd Arg)],
          ArgumentMap := DenseMap_insert (ArgumentMap S) (fst Arg)
                           (SILValue (SILArgument (NextAddr S)) 0)\<rparr>)"

text \<open>
  \<^verbatim>\<open>splice\<close> moves one block of the layout to the place before another one. An anchor that
  is not in the layout is outside the contract of \<^verbatim>\<open>splice\<close>; the model then leaves the
  block at the end.
\<close>

definition splice_before :: "'a \<Rightarrow> 'a \<Rightarrow> 'a list \<Rightarrow> 'a list" where
  "splice_before pos x xs =
     (let ys = remove1 x xs
      in takeWhile (\<lambda>y. y \<noteq> pos) ys @ x # dropWhile (\<lambda>y. y \<noteq> pos) ys)"

text \<open>
  Lines 151 to 165, for a successor without entry in \<^verbatim>\<open>BBMap\<close>: the new block, its entry in
  \<^verbatim>\<open>BBMap\<close>, its arguments, its place in the layout, and the insertion point. The
  constructors are not among the sources: \<^verbatim>\<open>SILBasicBlock(&F)\<close> is taken to append the new
  block to the blocks of \<^verbatim>\<open>F\<close>, \<^verbatim>\<open>SILArgument(Ty, MappedBB)\<close> to append the new argument to the
  arguments of \<^verbatim>\<open>MappedBB\<close>, and \<^verbatim>\<open>setInsertionPoint(MappedBB)\<close> to make the builder insert
  into \<^verbatim>\<open>MappedBB\<close>.
\<close>

definition mapSuccessor :: "SILBasicBlockRef \<Rightarrow> SILBasicBlock \<Rightarrow> SILCloner \<Rightarrow> SILCloner" where
  "mapSuccessor Succ SuccBB S =
     (let MappedBB = NextAddr S;
          S1 = S\<lparr>NextAddr := NextAddr S + 1,
                 Blocks := Blocks S @ [MappedBB],
                 BBMap := DenseMap_insert (BBMap S) Succ MappedBB\<rparr>;
          S2 = mapBBArgs MappedBB (BBArgs SuccBB) S1;
          S3 = (case InsertBeforeBB S2 of
                  None \<Rightarrow> S2
                | Some B \<Rightarrow> S2\<lparr>Blocks := splice_before B MappedBB (Blocks S2)\<rparr>)
      in S3\<lparr>InsertionBB := Some MappedBB\<rparr>)"

text \<open>
  \<^verbatim>\<open>visitSILBasicBlock\<close> (lines 139 to 170). \<open>visitSuccs\<close> is its second loop, over the
  successors that are still to be looked at; the successors are those of the original
  block. A call records its block in the history variable \<open>Visited\<close>. The recursion is
  the recursion of the source; that it ends is proved below.
\<close>

function visitSILBasicBlock :: "ImplClass \<Rightarrow> SILFunction \<Rightarrow> SILBasicBlockRef \<Rightarrow> SILCloner \<Rightarrow> error + SILCloner"
  and visitSuccs :: "ImplClass \<Rightarrow> SILFunction \<Rightarrow> SILBasicBlockRef list \<Rightarrow> SILCloner \<Rightarrow> error + SILCloner"
where
  "visitSILBasicBlock C Callee BB S =
     (case getBB Callee BB of
        None \<Rightarrow> Inl InvalidBasicBlock
      | Some B \<Rightarrow>
          if InstList B = [] then Inl NoTerminator
          else (case visitInsts C (butlast (InstList B)) (S\<lparr>Visited := Visited S @ [BB]\<rparr>) of
                  Inl e \<Rightarrow> Inl e
                | Inr S' \<Rightarrow> visitSuccs C Callee (Succs B) S'))"
| "visitSuccs C Callee [] S = Inr S"
| "visitSuccs C Callee (Succ # Rest) S =
     (if BBMap S Succ = None then
        (case getBB Callee Succ of
           None \<Rightarrow> Inl InvalidBasicBlock
         | Some SuccBB \<Rightarrow>
             (case visitSILBasicBlock C Callee Succ (mapSuccessor Succ SuccBB S) of
                Inl e \<Rightarrow> Inl e
              | Inr S' \<Rightarrow> visitSuccs C Callee Rest S'))
      else visitSuccs C Callee Rest S)"
  by pat_completeness auto

section \<open>Named properties and example inputs\<close>

text \<open>
  What the specification asks of the clone of a switch: the discriminee is the remapped
  operand, there are as many cases as before, each case keeps its value or tag and has the
  remapped target, and the default target is absent if it was absent and is the remapped
  default otherwise.
\<close>

definition switch_remapped ::
  "ImplClass \<Rightarrow> SILCloner \<Rightarrow> SILValue \<Rightarrow> SILBasicBlockRef option \<Rightarrow> ('a \<times> SILBasicBlockRef) list \<Rightarrow>
   SILValue \<Rightarrow> SILBasicBlockRef option \<Rightarrow> ('a \<times> SILBasicBlockRef) list \<Rightarrow> bool" where
  "switch_remapped C S Operand DefaultBB Cases Operand' DefaultBB' Cases' \<longleftrightarrow>
     remapValue C S Operand = Inr Operand' \<and>
     length Cases' = length Cases \<and>
     (\<forall>i<length Cases. fst (Cases' ! i) = fst (Cases ! i) \<and>
        remapBasicBlock C S (snd (Cases ! i)) = Inr (snd (Cases' ! i))) \<and>
     (case DefaultBB of
        None \<Rightarrow> DefaultBB' = None
      | Some BB \<Rightarrow> \<exists>BB'. DefaultBB' = Some BB' \<and> remapBasicBlock C S BB = Inr BB')"

text \<open>
  The instructions of a block of \<open>Callee\<close> other than the last one, in order.
\<close>

definition nonTerminators :: "SILFunction \<Rightarrow> SILBasicBlockRef \<Rightarrow> (nat \<times> SILInstruction) list" where
  "nonTerminators Callee BB =
     (case getBB Callee BB of
        None \<Rightarrow> []
      | Some B \<Rightarrow> take (length (InstList B) - 1) (InstList B))"

text \<open>
  What it means that a list of instructions was dispatched in order, each cloned and
  registered, between two states: the dispatch history grew by exactly these instructions;
  the builder created as many instructions, of the same kinds in the same order; afterwards
  each of them has an entry in \<^verbatim>\<open>InstructionMap\<close>; no entry was removed or changed, and an
  entry that is new maps one of these instructions to one of the instructions created.
\<close>

definition cloned_in_order :: "(nat \<times> SILInstruction) list \<Rightarrow> SILCloner \<Rightarrow> SILCloner \<Rightarrow> bool" where
  "cloned_in_order Is S S' \<longleftrightarrow>
     Dispatched S' = Dispatched S @ map fst Is \<and>
     InstructionMap S \<subseteq>\<^sub>m InstructionMap S' \<and>
     fst ` set Is \<subseteq> dom (InstructionMap S') \<and>
     (\<exists>E. NewInsts S' = NewInsts S @ E \<and>
        map (getKind \<circ> snd \<circ> snd) E = map (getKind \<circ> snd) Is \<and>
        (\<forall>I V. InstructionMap S' I = Some V \<and> InstructionMap S I = None \<longrightarrow>
           I \<in> fst ` set Is \<and> V \<in> fst ` set E))"

text \<open>
  No entry of the three maps was removed or changed between two states.
\<close>

definition maps_le :: "SILCloner \<Rightarrow> SILCloner \<Rightarrow> bool" where
  "maps_le S T \<longleftrightarrow>
     BBMap S \<subseteq>\<^sub>m BBMap T \<and> ArgumentMap S \<subseteq>\<^sub>m ArgumentMap T \<and>
     InstructionMap S \<subseteq>\<^sub>m InstructionMap T"

text \<open>
  A cloner in the middle of its work: instruction 7 has the clone 90, the blocks 1 and 2
  have the clones 11 and 12.
\<close>

definition exampleCloner :: SILCloner where
  "exampleCloner =
     (SILCloner_new 100 [])\<lparr>InstructionMap := [7 \<mapsto> 90], BBMap := [1 \<mapsto> 11, 2 \<mapsto> 12]\<rparr>"

text \<open>
  The diamond: block 0 ends in a conditional branch to the blocks 1 and 2, which both
  branch to block 3. Block 0 allocates a stack slot; block 3 has the argument 20 of type 7,
  loads from it and returns the value loaded.
\<close>

definition diamondCFG :: SILFunction where
  "diamondCFG =
     [(0, \<lparr> BBArgs = [],
            InstList = [(10, Allocation (AllocStackInst 1 5)),
                        (11, Term (CondBranchInst 1 (SILValue (SILInstruction 10) 0) 1 [] 2 []))],
            Succs = [1, 2] \<rparr>),
      (1, \<lparr> BBArgs = [],
            InstList = [(12, Term (BranchInst 1 3 [SILValue (SILInstruction 10) 0]))],
            Succs = [3] \<rparr>),
      (2, \<lparr> BBArgs = [],
            InstList = [(13, Term (BranchInst 1 3 [SILValue (SILInstruction 10) 0]))],
            Succs = [3] \<rparr>),
      (3, \<lparr> BBArgs = [(20, 7)],
            InstList = [(14, Access (LoadInst 1 (SILValue (SILArgument 20) 0))),
                        (15, Term (ReturnInst 1 (SILValue (SILInstruction 14) 0)))],
            Succs = [] \<rparr>)]"

text \<open>
  The self loop: block 0 has the argument 20 of type 7, allocates a stack slot and branches
  back to itself, passing the slot as the loop-carried argument.
\<close>

definition selfLoopCFG :: SILFunction where
  "selfLoopCFG =
     [(0, \<lparr> BBArgs = [(20, 7)],
            InstList = [(10, Allocation (AllocStackInst 1 5)),
                        (11, Term (BranchInst 1 0 [SILValue (SILInstruction 10) 0]))],
            Succs = [0] \<rparr>)]"

text \<open>
  A self loop whose body reads its argument: block 0 has the argument 20 of type 7, loads
  from it and branches back to itself, passing the value loaded as the loop-carried
  argument.
\<close>

definition readingLoopCFG :: SILFunction where
  "readingLoopCFG =
     [(0, \<lparr> BBArgs = [(20, 7)],
            InstList = [(10, Access (LoadInst 1 (SILValue (SILArgument 20) 0))),
                        (11, Term (BranchInst 1 0 [SILValue (SILInstruction 10) 0]))],
            Succs = [0] \<rparr>)]"

text \<open>
  A cloner at the start of a walk: empty maps, the builder inserting into block 50 of the
  function cloned into, and the next free address 100.
\<close>

definition walkStart :: SILCloner where
  "walkStart = (SILCloner_new 100 [50])\<lparr>InsertionBB := Some 50\<rparr>"

text \<open>A derived cloner whose \<^verbatim>\<open>remapValue\<close> fails on every value.\<close>

definition failingCloner :: ImplClass where
  "failingCloner = SILCloner_Impl\<lparr>remapValue := (\<lambda>S v. Inl UnknownValueType)\<rparr>"

text \<open>A derived cloner whose \<^verbatim>\<open>remapType\<close> is not the identity: it adds 1000 to every type.\<close>

definition substCloner :: ImplClass where
  "substCloner = SILCloner_Impl\<lparr>remapType := (\<lambda>Ty. Ty + 1000)\<rparr>"

section \<open>Termination of the walk\<close>

text \<open>
  Cloning instructions leaves \<^verbatim>\<open>BBMap\<close> alone, and a walk never removes an entry from it.
  Every recursive visit is of a block of \<open>Callee\<close> that has just received its entry, so the
  number of blocks of \<open>Callee\<close> without entry decreases.
\<close>

lemma visit_Inr:
  "visit C I S = Inr (v, S') \<Longrightarrow>
     \<exists>I'. cloneInst C S (snd I) = Inr I' \<and> v = SILValue (SILInstruction (NextAddr S)) 0 \<and>
       S' = S\<lparr>Dispatched := Dispatched S @ [fst I], NextAddr := NextAddr S + 1,
              NewInsts := NewInsts S @ [(NextAddr S, InsertionBB S, I')],
              InstructionMap := DenseMap_insert (InstructionMap S) (fst I) (NextAddr S)\<rparr>"
  by (auto simp: visit_def Builder_create_def doPostProcess_def postProcess_def split: sum.splits)

lemma visit_BBMap: "visit C I S = Inr (v, S') \<Longrightarrow> BBMap S' = BBMap S"
  by (drule visit_Inr) auto

lemma visitInsts_BBMap: "visitInsts C Is S = Inr S' \<Longrightarrow> BBMap S' = BBMap S"
  by (induction Is arbitrary: S) (auto split: sum.splits dest: visit_BBMap)

lemma mapBBArgs_BBMap: "BBMap (mapBBArgs M As S) = BBMap S"
  by (induction As arbitrary: S) auto

lemma mapSuccessor_BBMap:
  "BBMap (mapSuccessor Succ B S) = DenseMap_insert (BBMap S) Succ (NextAddr S)"
  by (simp add: mapSuccessor_def Let_def mapBBArgs_BBMap split: option.splits)

lemma walk_dom_mono:
  "visitSILBasicBlock_visitSuccs_dom (Inl (C, Callee, BB, S)) \<Longrightarrow>
     visitSILBasicBlock C Callee BB S = Inr S' \<Longrightarrow> dom (BBMap S) \<subseteq> dom (BBMap S')"
  "visitSILBasicBlock_visitSuccs_dom (Inr (C, Callee, Ss, S)) \<Longrightarrow>
     visitSuccs C Callee Ss S = Inr S'' \<Longrightarrow> dom (BBMap S) \<subseteq> dom (BBMap S'')"
proof (induction C Callee BB S and C Callee Ss S arbitrary: S' and S''
    rule: visitSILBasicBlock_visitSuccs.pinduct)
  case (1 C Callee BB S)
  from 1(1,3) obtain B S1 where B: "getBB Callee BB = Some B" and ne: "InstList B \<noteq> []"
    and S1: "visitInsts C (butlast (InstList B)) (S\<lparr>Visited := Visited S @ [BB]\<rparr>) = Inr S1"
    and R: "visitSuccs C Callee (Succs B) S1 = Inr S'"
    by (auto simp: visitSILBasicBlock.psimps split: option.splits if_splits sum.splits)
  from 1(2)[OF B ne S1 R] visitInsts_BBMap[OF S1] show ?case by simp
next
  case (2 C Callee S)
  then show ?case by (simp add: visitSuccs.psimps)
next
  case (3 C Callee Succ Rest S)
  show ?case
  proof (cases "BBMap S Succ = None")
    case False
    with 3 show ?thesis by (simp add: visitSuccs.psimps)
  next
    case True
    with 3(1,5) obtain B S1 where B: "getBB Callee Succ = Some B"
      and S1: "visitSILBasicBlock C Callee Succ (mapSuccessor Succ B S) = Inr S1"
      and R: "visitSuccs C Callee Rest S1 = Inr S''"
      by (auto simp: visitSuccs.psimps split: option.splits sum.splits)
    from 3(2)[OF True B S1] have "dom (BBMap (mapSuccessor Succ B S)) \<subseteq> dom (BBMap S1)" .
    moreover from 3(3)[OF True B S1 R] have "dom (BBMap S1) \<subseteq> dom (BBMap S'')" .
    moreover have "dom (BBMap S) \<subseteq> dom (BBMap (mapSuccessor Succ B S))"
      by (auto simp: mapSuccessor_BBMap DenseMap_insert_def)
    ultimately show ?thesis by blast
  qed
qed

termination visitSILBasicBlock
proof (relation "inv_image (less_than <*lex*> less_than)
     (\<lambda>x. case x of
            Inl (C, Callee, BB, S) \<Rightarrow>
              (card (fst ` set Callee - dom (BBMap S)), Suc (length (Succs (the (getBB Callee BB)))))
          | Inr (C, Callee, Ss, S) \<Rightarrow> (card (fst ` set Callee - dom (BBMap S)), length Ss))",
    goal_cases)
  case 1
  then show ?case by auto
next
  case (2 C Callee BB S B S')
  from visitInsts_BBMap[OF 2(3)] 2(1) show ?case by simp
next
  case (3 C Callee Succ Rest S SuccBB)
  have "Succ \<in> fst ` set Callee"
    using 3(2) by (auto simp: getBB_def dest: map_of_SomeD intro: rev_image_eqI)
  with 3(1) have "fst ` set Callee - dom (BBMap (mapSuccessor Succ SuccBB S))
      \<subset> fst ` set Callee - dom (BBMap S)"
    by (auto simp: mapSuccessor_BBMap DenseMap_insert_def)
  then have "card (fst ` set Callee - dom (BBMap (mapSuccessor Succ SuccBB S)))
      < card (fst ` set Callee - dom (BBMap S))"
    by (intro psubset_card_mono) auto
  then show ?case by simp
next
  case (4 C Callee Succ Rest S SuccBB S')
  from walk_dom_mono(1)[OF 4(4,3)]
  have "dom (BBMap S) \<subseteq> dom (BBMap S')"
    by (auto simp: mapSuccessor_BBMap DenseMap_insert_def split: if_splits)
  then have "card (fst ` set Callee - dom (BBMap S')) \<le> card (fst ` set Callee - dom (BBMap S))"
    by (intro card_mono) auto
  then show ?case by auto
next
  case (5 C Callee Succ Rest S)
  then show ?case by simp
qed

declare visitSILBasicBlock.simps [simp del]
declare visitSuccs.simps(2) [simp del]

section \<open>The default lookups\<close>

text \<open>
  C4. A value or block without entry in the clone maps makes the default lookups fail:
  \<^verbatim>\<open>remapValue\<close> ends with the unmapped-argument assertion for a block argument (with the
  result-number assertion before it, if the value names another result than 0) and with
  the unmapped-instruction assertion for an instruction result, and \<^verbatim>\<open>remapBasicBlock\<close> with
  the unmapped-block assertion. Neither ever returns a value that does not come from an
  entry of the maps: whenever \<^verbatim>\<open>remapValue\<close> returns, the value returned is the entry of the
  argument or the same result of the entry of the instruction, and whenever
  \<^verbatim>\<open>remapBasicBlock\<close> returns, the block returned is the entry of the block.
\<close>

theorem remap_unmapped_fails:
  "(ArgumentMap S A = None \<longrightarrow>
      SILCloner_remapValue S (SILValue (SILArgument A) 0) = Inl UnmappedArgument \<and>
      (\<exists>e. SILCloner_remapValue S (SILValue (SILArgument A) n) = Inl e)) \<and>
   (InstructionMap S I = None \<longrightarrow>
      SILCloner_remapValue S (SILValue (SILInstruction I) n) = Inl UnmappedInstruction) \<and>
   (BBMap S BB = None \<longrightarrow> SILCloner_remapBasicBlock S BB = Inl UnmappedBasicBlock) \<and>
   (\<forall>w. SILCloner_remapValue S v = Inr w \<longrightarrow>
      (\<exists>A'. getDef v = SILArgument A' \<and> ArgumentMap S A' = Some w) \<or>
      (\<exists>I' V. getDef v = SILInstruction I' \<and> InstructionMap S I' = Some V \<and>
         w = SILValue (SILInstruction V) (getResultNumber v))) \<and>
   (\<forall>M. SILCloner_remapBasicBlock S BB = Inr M \<longrightarrow> BBMap S BB = Some M)"
proof -
  have "\<And>w. SILCloner_remapValue S v = Inr w \<Longrightarrow>
      (\<exists>A'. getDef v = SILArgument A' \<and> ArgumentMap S A' = Some w) \<or>
      (\<exists>I' V. getDef v = SILInstruction I' \<and> InstructionMap S I' = Some V \<and>
         w = SILValue (SILInstruction V) (getResultNumber v))"
    by (cases "(S, v)" rule: SILCloner_remapValue.cases) (auto split: if_splits option.splits)
  then show ?thesis
    by (auto simp: SILCloner_remapBasicBlock_def split: option.splits)
qed

theorem remap_unmapped_fails_witness:
  "ArgumentMap (SILCloner_new 100 []) 1 = None \<and>
   SILCloner_remapValue (SILCloner_new 100 []) (SILValue (SILArgument 1) 0) = Inl UnmappedArgument \<and>
   InstructionMap (SILCloner_new 100 []) 2 = None \<and>
   SILCloner_remapValue (SILCloner_new 100 []) (SILValue (SILInstruction 2) 1) = Inl UnmappedInstruction \<and>
   BBMap (SILCloner_new 100 []) 3 = None \<and>
   SILCloner_remapBasicBlock (SILCloner_new 100 []) 3 = Inl UnmappedBasicBlock \<and>
   SILCloner_remapValue exampleCloner (SILValue (SILInstruction 7) 1)
     = Inr (SILValue (SILInstruction 90) 1) \<and>
   InstructionMap exampleCloner 7 = Some 90 \<and>
   SILCloner_remapBasicBlock exampleCloner 2 = Inr 12 \<and> BBMap exampleCloner 2 = Some 12"
  using remap_unmapped_fails [of "SILCloner_new 100 []" 1 1 2 3 "SILValue (SILArgument 1) 0"]
    remap_unmapped_fails [of exampleCloner 1 1 2 2 "SILValue (SILInstruction 7) 1"]
  by (simp add: SILCloner_new_def exampleCloner_def SILCloner_remapBasicBlock_def)

text \<open>
  C9. For a value that is result \<open>n\<close> of an instruction with an entry in \<^verbatim>\<open>InstructionMap\<close>,
  the default \<^verbatim>\<open>remapValue\<close> returns result \<open>n\<close> of the instruction's clone: the result
  number is passed on unchanged.
\<close>

theorem remapValue_keeps_result_number:
  "InstructionMap S I = Some V \<Longrightarrow>
     SILCloner_remapValue S (SILValue (SILInstruction I) n) = Inr (SILValue (SILInstruction V) n)"
  by simp

theorem remapValue_keeps_result_number_witness:
  "InstructionMap ((SILCloner_new 100 [])\<lparr>InstructionMap := [7 \<mapsto> 100]\<rparr>) 7 = Some 100 \<and>
   SILCloner_remapValue ((SILCloner_new 100 [])\<lparr>InstructionMap := [7 \<mapsto> 100]\<rparr>)
       (SILValue (SILInstruction 7) 1) = Inr (SILValue (SILInstruction 100) 1) \<and>
   SILCloner_remapValue ((SILCloner_new 100 [])\<lparr>InstructionMap := [7 \<mapsto> 100]\<rparr>)
       (SILValue (SILInstruction 7) 0) = Inr (SILValue (SILInstruction 100) 0)"
  using remapValue_keeps_result_number
    [of "(SILCloner_new 100 [])\<lparr>InstructionMap := [7 \<mapsto> 100]\<rparr>" 7 100 1]
    remapValue_keeps_result_number
    [of "(SILCloner_new 100 [])\<lparr>InstructionMap := [7 \<mapsto> 100]\<rparr>" 7 100 0]
  by (simp add: SILCloner_new_def)

section \<open>Clone rules\<close>

text \<open>What \<^verbatim>\<open>visit\<close> does with the instruction that the rule's factory call constructs.\<close>

lemma visit_eq:
  "visit C I S =
     (case cloneInst C S (snd I) of
        Inl e \<Rightarrow> Inl e
      | Inr I' \<Rightarrow>
          Inr (SILValue (SILInstruction (NextAddr S)) 0,
               S\<lparr>Dispatched := Dispatched S @ [fst I], NextAddr := NextAddr S + 1,
                  NewInsts := NewInsts S @ [(NextAddr S, InsertionBB S, I')],
                  InstructionMap := DenseMap_insert (InstructionMap S) (fst I) (NextAddr S)\<rparr>))"
  by (simp add: visit_def Builder_create_def doPostProcess_def postProcess_def split: sum.splits)

text \<open>Every rule calls the factory of the class whose rule it is.\<close>

lemma clone_Allocation_kind: "clone_Allocation C S I = Inr I' \<Longrightarrow> getKind_Allocation I' = getKind_Allocation I"
  by (cases I) (auto simp: bindE_def split: sum.splits)

lemma clone_FunctionOrLiteral_kind: "clone_FunctionOrLiteral C S I = Inr I' \<Longrightarrow> getKind_FunctionOrLiteral I' = getKind_FunctionOrLiteral I"
  by (cases I) (auto simp: bindE_def split: sum.splits)

lemma clone_Access_kind: "clone_Access C S I = Inr I' \<Longrightarrow> getKind_Access I' = getKind_Access I"
  by (cases I) (auto simp: bindE_def split: sum.splits)

lemma clone_Conversion_kind: "clone_Conversion C S I = Inr I' \<Longrightarrow> getKind_Conversion I' = getKind_Conversion I"
  by (cases I) (auto simp: bindE_def split: sum.splits)

lemma clone_Aggregate_kind: "clone_Aggregate C S I = Inr I' \<Longrightarrow> getKind_Aggregate I' = getKind_Aggregate I"
  by (cases I) (auto simp: bindE_def split: sum.splits)

lemma clone_TypeValue_kind: "clone_TypeValue C S I = Inr I' \<Longrightarrow> getKind_TypeValue I' = getKind_TypeValue I"
  by (cases I) (auto simp: bindE_def split: sum.splits)

lemma clone_Projection_kind: "clone_Projection C S I = Inr I' \<Longrightarrow> getKind_Projection I' = getKind_Projection I"
  by (cases I) (auto simp: bindE_def split: sum.splits)

lemma clone_Method_kind: "clone_Method C S I = Inr I' \<Longrightarrow> getKind_Method I' = getKind_Method I"
  by (cases I) (auto simp: bindE_def split: sum.splits)

lemma clone_Existential_kind: "clone_Existential C S I = Inr I' \<Longrightarrow> getKind_Existential I' = getKind_Existential I"
  by (cases I) (auto simp: bindE_def split: sum.splits)

lemma clone_RefCounting_kind: "clone_RefCounting C S I = Inr I' \<Longrightarrow> getKind_RefCounting I' = getKind_RefCounting I"
  by (cases I) (auto simp: bindE_def split: sum.splits)

lemma clone_DeallocOrIndex_kind: "clone_DeallocOrIndex C S I = Inr I' \<Longrightarrow> getKind_DeallocOrIndex I' = getKind_DeallocOrIndex I"
  by (cases I) (auto simp: bindE_def split: sum.splits)

lemma clone_Term_kind: "clone_Term C S I = Inr I' \<Longrightarrow> getKind_Term I' = getKind_Term I"
  by (cases I) (auto simp: bindE_def split: sum.splits)

lemma cloneInst_kind: "cloneInst C S I = Inr I' \<Longrightarrow> getKind I' = getKind I"
  by (cases I)
    (auto simp: bindE_def split: sum.splits
      dest: clone_Allocation_kind
        clone_FunctionOrLiteral_kind
        clone_Access_kind
        clone_Conversion_kind
        clone_Aggregate_kind
        clone_TypeValue_kind
        clone_Projection_kind
        clone_Method_kind
        clone_Existential_kind
        clone_RefCounting_kind
        clone_DeallocOrIndex_kind
        clone_Term_kind)

text \<open>
  C8. The rule of \<^verbatim>\<open>EnumInst\<close>, for every setting of the hooks. Without operand the clone has
  no operand, whatever \<^verbatim>\<open>remapValue\<close> would do: the rule succeeds and the hook is not asked.
  With an operand the clone has the operand that \<^verbatim>\<open>remapValue\<close> returns for it, and the rule
  fails as \<^verbatim>\<open>remapValue\<close> fails. The case element is copied as it is; location and type go
  through their hooks.
\<close>

theorem visitEnumInst_operand:
  "(\<exists>v S'. visit C (a, Aggregate (EnumInst Loc None Element Ty)) S = Inr (v, S') \<and>
      NewInsts S' = NewInsts S @
        [(NextAddr S, InsertionBB S,
          Aggregate (EnumInst (remapLocation C Loc) None Element (remapType C Ty)))]) \<and>
   (\<forall>x'. remapValue C S x = Inr x' \<longrightarrow>
      (\<exists>v S'. visit C (a, Aggregate (EnumInst Loc (Some x) Element Ty)) S = Inr (v, S') \<and>
         NewInsts S' = NewInsts S @
           [(NextAddr S, InsertionBB S,
             Aggregate (EnumInst (remapLocation C Loc) (Some x') Element (remapType C Ty)))])) \<and>
   (\<forall>e. remapValue C S x = Inl e \<longrightarrow>
      visit C (a, Aggregate (EnumInst Loc (Some x) Element Ty)) S = Inl e)"
  by (simp add: visit_eq bindE_def getOpValue_def getOpLocation_def getOpType_def)

theorem visitEnumInst_operand_witness:
  "remapValue SILCloner_Impl exampleCloner (SILValue (SILInstruction 7) 0) = Inr (SILValue (SILInstruction 90) 0) \<and>
   map_sum id (NewInsts \<circ> snd) (visit SILCloner_Impl (20, Aggregate (EnumInst 1 (Some (SILValue (SILInstruction 7) 0)) 5 3)) exampleCloner)
     = Inr [(100, None, Aggregate (EnumInst 1 (Some (SILValue (SILInstruction 90) 0)) 5 3))] \<and>
   map_sum id (NewInsts \<circ> snd) (visit SILCloner_Impl (20, Aggregate (EnumInst 1 None 5 3)) exampleCloner)
     = Inr [(100, None, Aggregate (EnumInst 1 None 5 3))] \<and>
   remapValue SILCloner_Impl exampleCloner (SILValue (SILInstruction 8) 0) = Inl UnmappedInstruction \<and>
   visit SILCloner_Impl (20, Aggregate (EnumInst 1 (Some (SILValue (SILInstruction 8) 0)) 5 3)) exampleCloner
     = Inl UnmappedInstruction \<and>
   remapValue failingCloner exampleCloner (SILValue (SILInstruction 7) 0) = Inl UnknownValueType \<and>
   map_sum id (NewInsts \<circ> snd) (visit failingCloner (20, Aggregate (EnumInst 1 None 5 3)) exampleCloner)
     = Inr [(100, None, Aggregate (EnumInst 1 None 5 3))]"
  using visitEnumInst_operand [of SILCloner_Impl 20 1 5 3 exampleCloner "SILValue (SILInstruction 7) 0"]
    visitEnumInst_operand [of SILCloner_Impl 20 1 5 3 exampleCloner "SILValue (SILInstruction 8) 0"]
    visitEnumInst_operand [of failingCloner 20 1 5 3 exampleCloner "SILValue (SILInstruction 7) 0"]
  by (auto simp: SILCloner_Impl_def failingCloner_def exampleCloner_def SILCloner_new_def)

text \<open>
  The loop over the cases and the default target, in the terms of \<open>switch_remapped\<close>.
\<close>

lemma getOpCaseBBs_Inr:
  "getOpCaseBBs C S Cases = Inr Cases' \<longleftrightarrow>
     length Cases' = length Cases \<and>
     (\<forall>i<length Cases. fst (Cases' ! i) = fst (Cases ! i) \<and>
        remapBasicBlock C S (snd (Cases ! i)) = Inr (snd (Cases' ! i)))"
proof (induction Cases arbitrary: Cases')
  case Nil
  then show ?case by auto
next
  case (Cons c Cases)
  show ?case
  proof (cases Cases')
    case Nil
    then show ?thesis by (auto simp: bindE_def split: sum.splits)
  next
    case (Cons c' rest)
    have "getOpCaseBBs C S (c # Cases) = Inr (c' # rest) \<longleftrightarrow>
        fst c' = fst c \<and> remapBasicBlock C S (snd c) = Inr (snd c') \<and>
        getOpCaseBBs C S Cases = Inr rest"
      by (cases c') (auto simp: bindE_def getOpBasicBlock_def split: sum.splits)
    also have "\<dots> \<longleftrightarrow> fst c' = fst c \<and> remapBasicBlock C S (snd c) = Inr (snd c') \<and>
        length rest = length Cases \<and>
        (\<forall>i<length Cases. fst (rest ! i) = fst (Cases ! i) \<and>
           remapBasicBlock C S (snd (Cases ! i)) = Inr (snd (rest ! i)))"
      by (simp add: Cons.IH)
    also have "\<dots> \<longleftrightarrow> length (c' # rest) = length (c # Cases) \<and>
        (\<forall>i<length (c # Cases). fst ((c' # rest) ! i) = fst ((c # Cases) ! i) \<and>
           remapBasicBlock C S (snd ((c # Cases) ! i)) = Inr (snd ((c' # rest) ! i)))"
      by (auto simp: nth_Cons less_Suc_eq_0_disj split: nat.splits)
    finally show ?thesis using Cons by simp
  qed
qed

lemma getOpDefaultBB_Inr:
  "getOpDefaultBB C S D = Inr D' \<longleftrightarrow>
     (case D of None \<Rightarrow> D' = None
      | Some BB \<Rightarrow> \<exists>BB'. D' = Some BB' \<and> remapBasicBlock C S BB = Inr BB')"
  by (auto simp: getOpDefaultBB_def bindE_def getOpBasicBlock_def split: option.splits sum.splits)

lemma switch_cloneD:
  assumes "bindE (getOpDefaultBB C S D) (\<lambda>D'. bindE (getOpCaseBBs C S Cases)
       (\<lambda>Cases'. bindE (getOpValue C S Operand) (\<lambda>Operand'. Inr (K Operand' D' Cases')))) = Inr I'"
  shows "\<exists>Operand' D' Cases'. switch_remapped C S Operand D Cases Operand' D' Cases' \<and>
          I' = K Operand' D' Cases'"
proof -
  from assms obtain D' Cases' Operand' where d: "getOpDefaultBB C S D = Inr D'"
    and c: "getOpCaseBBs C S Cases = Inr Cases'" and v: "remapValue C S Operand = Inr Operand'"
    and i: "I' = K Operand' D' Cases'"
    by (auto simp: bindE_def getOpValue_def split: sum.splits)
  from d c v have "switch_remapped C S Operand D Cases Operand' D' Cases'"
    using getOpCaseBBs_Inr[of C S Cases Cases'] getOpDefaultBB_Inr[of C S D D']
    by (simp add: switch_remapped_def)
  with i show ?thesis by blast
qed

lemma switch_cloneI:
  assumes "switch_remapped C S Operand D Cases Operand' D' Cases'"
  shows "bindE (getOpDefaultBB C S D) (\<lambda>D'. bindE (getOpCaseBBs C S Cases)
       (\<lambda>Cases'. bindE (getOpValue C S Operand) (\<lambda>Operand'. Inr (K Operand' D' Cases'))))
     = Inr (K Operand' D' Cases')"
proof -
  from assms have "getOpDefaultBB C S D = Inr D'" "getOpCaseBBs C S Cases = Inr Cases'"
    "remapValue C S Operand = Inr Operand'"
    using getOpCaseBBs_Inr[of C S Cases Cases'] getOpDefaultBB_Inr[of C S D D']
    by (simp_all add: switch_remapped_def)
  then show ?thesis by (simp add: bindE_def getOpValue_def)
qed

text \<open>
  C7. The rules of \<^verbatim>\<open>SwitchIntInst\<close>, \<^verbatim>\<open>SwitchEnumInst\<close> and \<^verbatim>\<open>DestructiveSwitchEnumAddrInst\<close>,
  for every setting of the hooks. If the rule returns, the instruction created is a switch
  of the same class whose operand is the remapped operand, whose cases are as many as the
  original's, in the same order, each with the original's value or tag and the remapped
  target, and whose default target is absent if the original has none and the remapped
  default otherwise. The rule returns whenever these remaps succeed.
\<close>

theorem visit_switch:
  "(visit C (a, Term (SwitchIntInst Loc Operand DefaultBB ICases)) S = Inr (v, S') \<longrightarrow>
      (\<exists>Operand' DefaultBB' Cases'.
         switch_remapped C S Operand DefaultBB ICases Operand' DefaultBB' Cases' \<and>
         NewInsts S' = NewInsts S @
           [(NextAddr S, InsertionBB S,
             Term (SwitchIntInst (remapLocation C Loc) Operand' DefaultBB' Cases'))])) \<and>
   (visit C (a, Term (SwitchEnumInst Loc Operand DefaultBB ECases)) S = Inr (v, S') \<longrightarrow>
      (\<exists>Operand' DefaultBB' Cases'.
         switch_remapped C S Operand DefaultBB ECases Operand' DefaultBB' Cases' \<and>
         NewInsts S' = NewInsts S @
           [(NextAddr S, InsertionBB S,
             Term (SwitchEnumInst (remapLocation C Loc) Operand' DefaultBB' Cases'))])) \<and>
   (visit C (a, Term (DestructiveSwitchEnumAddrInst Loc Operand DefaultBB ECases)) S = Inr (v, S') \<longrightarrow>
      (\<exists>Operand' DefaultBB' Cases'.
         switch_remapped C S Operand DefaultBB ECases Operand' DefaultBB' Cases' \<and>
         NewInsts S' = NewInsts S @
           [(NextAddr S, InsertionBB S,
             Term (DestructiveSwitchEnumAddrInst (remapLocation C Loc) Operand' DefaultBB' Cases'))])) \<and>
   (switch_remapped C S Operand DefaultBB ICases Operand1 DefaultBB1 ICases1 \<longrightarrow>
      (\<exists>w T. visit C (a, Term (SwitchIntInst Loc Operand DefaultBB ICases)) S = Inr (w, T))) \<and>
   (switch_remapped C S Operand DefaultBB ECases Operand1 DefaultBB1 ECases1 \<longrightarrow>
      (\<exists>w T. visit C (a, Term (SwitchEnumInst Loc Operand DefaultBB ECases)) S = Inr (w, T)) \<and>
      (\<exists>w T. visit C (a, Term (DestructiveSwitchEnumAddrInst Loc Operand DefaultBB ECases)) S
                = Inr (w, T)))"
proof (intro conjI impI)
  assume "visit C (a, Term (SwitchIntInst Loc Operand DefaultBB ICases)) S = Inr (v, S')"
  then obtain I' where c: "cloneInst C S (Term (SwitchIntInst Loc Operand DefaultBB ICases)) = Inr I'"
    and n: "NewInsts S' = NewInsts S @ [(NextAddr S, InsertionBB S, I')]"
    by (auto dest!: visit_Inr)
  from c obtain J where "clone_Term C S (SwitchIntInst Loc Operand DefaultBB ICases) = Inr J"
    and I': "I' = Term J"
    by (auto simp: bindE_def split: sum.splits)
  then have "\<exists>Operand' D' Cases'. switch_remapped C S Operand DefaultBB ICases Operand' D' Cases' \<and>
      J = SwitchIntInst (getOpLocation C Loc) Operand' D' Cases'"
    by (intro switch_cloneD) simp
  with n I' show "\<exists>Operand' DefaultBB' Cases'.
         switch_remapped C S Operand DefaultBB ICases Operand' DefaultBB' Cases' \<and>
         NewInsts S' = NewInsts S @
           [(NextAddr S, InsertionBB S,
             Term (SwitchIntInst (remapLocation C Loc) Operand' DefaultBB' Cases'))]"
    by (auto simp: getOpLocation_def)
next
  assume "visit C (a, Term (SwitchEnumInst Loc Operand DefaultBB ECases)) S = Inr (v, S')"
  then obtain I' where c: "cloneInst C S (Term (SwitchEnumInst Loc Operand DefaultBB ECases)) = Inr I'"
    and n: "NewInsts S' = NewInsts S @ [(NextAddr S, InsertionBB S, I')]"
    by (auto dest!: visit_Inr)
  from c obtain J where "clone_Term C S (SwitchEnumInst Loc Operand DefaultBB ECases) = Inr J"
    and I': "I' = Term J"
    by (auto simp: bindE_def split: sum.splits)
  then have "\<exists>Operand' D' Cases'. switch_remapped C S Operand DefaultBB ECases Operand' D' Cases' \<and>
      J = SwitchEnumInst (getOpLocation C Loc) Operand' D' Cases'"
    by (intro switch_cloneD) simp
  with n I' show "\<exists>Operand' DefaultBB' Cases'.
         switch_remapped C S Operand DefaultBB ECases Operand' DefaultBB' Cases' \<and>
         NewInsts S' = NewInsts S @
           [(NextAddr S, InsertionBB S,
             Term (SwitchEnumInst (remapLocation C Loc) Operand' DefaultBB' Cases'))]"
    by (auto simp: getOpLocation_def)
next
  assume "visit C (a, Term (DestructiveSwitchEnumAddrInst Loc Operand DefaultBB ECases)) S = Inr (v, S')"
  then obtain I' where c: "cloneInst C S (Term (DestructiveSwitchEnumAddrInst Loc Operand DefaultBB ECases)) = Inr I'"
    and n: "NewInsts S' = NewInsts S @ [(NextAddr S, InsertionBB S, I')]"
    by (auto dest!: visit_Inr)
  from c obtain J where "clone_Term C S (DestructiveSwitchEnumAddrInst Loc Operand DefaultBB ECases) = Inr J"
    and I': "I' = Term J"
    by (auto simp: bindE_def split: sum.splits)
  then have "\<exists>Operand' D' Cases'. switch_remapped C S Operand DefaultBB ECases Operand' D' Cases' \<and>
      J = DestructiveSwitchEnumAddrInst (getOpLocation C Loc) Operand' D' Cases'"
    by (intro switch_cloneD) simp
  with n I' show "\<exists>Operand' DefaultBB' Cases'.
         switch_remapped C S Operand DefaultBB ECases Operand' DefaultBB' Cases' \<and>
         NewInsts S' = NewInsts S @
           [(NextAddr S, InsertionBB S,
             Term (DestructiveSwitchEnumAddrInst (remapLocation C Loc) Operand' DefaultBB' Cases'))]"
    by (auto simp: getOpLocation_def)
next
  assume "switch_remapped C S Operand DefaultBB ICases Operand1 DefaultBB1 ICases1"
  from switch_cloneI[OF this, of "SwitchIntInst (getOpLocation C Loc)"]
  show "\<exists>w T. visit C (a, Term (SwitchIntInst Loc Operand DefaultBB ICases)) S = Inr (w, T)"
    by (simp add: visit_eq bindE_def)
next
  assume "switch_remapped C S Operand DefaultBB ECases Operand1 DefaultBB1 ECases1"
  from switch_cloneI[OF this, of "SwitchEnumInst (getOpLocation C Loc)"]
  show "\<exists>w T. visit C (a, Term (SwitchEnumInst Loc Operand DefaultBB ECases)) S = Inr (w, T)"
    by (simp add: visit_eq bindE_def)
next
  assume "switch_remapped C S Operand DefaultBB ECases Operand1 DefaultBB1 ECases1"
  from switch_cloneI[OF this, of "DestructiveSwitchEnumAddrInst (getOpLocation C Loc)"]
  show "\<exists>w T. visit C (a, Term (DestructiveSwitchEnumAddrInst Loc Operand DefaultBB ECases)) S
                = Inr (w, T)"
    by (simp add: visit_eq bindE_def)
qed

theorem visit_switch_witness:
  "switch_remapped SILCloner_Impl exampleCloner (SILValue (SILInstruction 7) 0) None [(5::int, 2), (-1, 1), (6, 2)]
      (SILValue (SILInstruction 90) 0) None [(5, 12), (-1, 11), (6, 12)] \<and>
   map_sum id (NewInsts \<circ> snd)
     (visit SILCloner_Impl (20, Term (SwitchIntInst 4 (SILValue (SILInstruction 7) 0) None [(5, 2), (-1, 1), (6, 2)])) exampleCloner)
     = Inr [(100, None, Term (SwitchIntInst 4 (SILValue (SILInstruction 90) 0) None [(5, 12), (-1, 11), (6, 12)]))] \<and>
   switch_remapped SILCloner_Impl exampleCloner (SILValue (SILInstruction 7) 0) (Some 1) [(8::nat, 2), (3, 1)]
      (SILValue (SILInstruction 90) 0) (Some 11) [(8, 12), (3, 11)] \<and>
   map_sum id (NewInsts \<circ> snd)
     (visit SILCloner_Impl (20, Term (SwitchEnumInst 4 (SILValue (SILInstruction 7) 0) (Some 1) [(8, 2), (3, 1)])) exampleCloner)
     = Inr [(100, None, Term (SwitchEnumInst 4 (SILValue (SILInstruction 90) 0) (Some 11) [(8, 12), (3, 11)]))] \<and>
   map_sum id (NewInsts \<circ> snd)
     (visit SILCloner_Impl (20, Term (DestructiveSwitchEnumAddrInst 4 (SILValue (SILInstruction 7) 0) (Some 1) [(8, 2), (3, 1)])) exampleCloner)
     = Inr [(100, None, Term (DestructiveSwitchEnumAddrInst 4 (SILValue (SILInstruction 90) 0) (Some 11) [(8, 12), (3, 11)]))]"
  using visit_switch [of SILCloner_Impl 20 4 "SILValue (SILInstruction 7) 0" None
      "[(5, 2), (-1, 1), (6, 2)]" exampleCloner _ _ "[(8, 2), (3, 1)]"
      "SILValue (SILInstruction 90) 0" None "[(5, 12), (-1, 11), (6, 12)]" "[(8, 12), (3, 11)]"]
    visit_switch [of SILCloner_Impl 20 4 "SILValue (SILInstruction 7) 0" "Some 1"
      "[(5, 2), (-1, 1), (6, 2)]" exampleCloner _ _ "[(8, 2), (3, 1)]"
      "SILValue (SILInstruction 90) 0" "Some 11" "[(5, 12), (-1, 11), (6, 12)]" "[(8, 12), (3, 11)]"]
  by (simp add: switch_remapped_def SILCloner_Impl_def exampleCloner_def SILCloner_new_def visit_eq bindE_def
      getOpValue_def getOpLocation_def getOpBasicBlock_def getOpDefaultBB_def
      SILCloner_remapBasicBlock_def nth_Cons less_Suc_eq_0_disj  split: nat.splits)

section \<open>The standalone instruction cloner on an instruction with an operand\<close>

text \<open>
  The assertion of \<^verbatim>\<open>clone\<close> holds whenever the rule of the instruction returns, provided the
  allocator hands out an address that no instruction created before has: \<^verbatim>\<open>clone\<close> fails
  exactly as the rule fails, and otherwise returns the new instruction.
\<close>

lemma clone_assertion_holds:
  assumes fresh: "\<forall>x \<in> set (NewInsts S). fst x < NextAddr S"
  shows "clone I S = map_sum id (\<lambda>(v, S'). (NextAddr S, S')) (visit SILInstructionCloner_Impl I S)"
proof (cases "cloneInst SILInstructionCloner_Impl S (snd I)")
  case (Inl e)
  then show ?thesis by (simp add: clone_def visit_eq)
next
  case (Inr I')
  have "map_of (map (\<lambda>(a', bb, I). (a', I)) (NewInsts S)) (NextAddr S) = None"
    using fresh by (force simp: map_of_eq_None_iff)
  then have g: "getInst (S\<lparr>Dispatched := Dispatched S @ [fst I], NextAddr := NextAddr S + 1,
                  NewInsts := NewInsts S @ [(NextAddr S, InsertionBB S, I')],
                  InstructionMap := DenseMap_insert (InstructionMap S) (fst I) (NextAddr S)\<rparr>)
        (NextAddr S) = Some I'"
    by (simp add: getInst_def map_add_def)
  from cloneInst_kind[OF Inr] g Inr show ?thesis
    by (simp add: clone_def visit_eq)
qed

text \<open>
  C6. \<^verbatim>\<open>SILInstructionCloner::clone\<close> on a fresh cloner: a load whose operand is the result of
  instruction 7 ends in the unmapped-instruction assertion, a load of block argument 3 in
  the unmapped-argument assertion, a branch to block 9 in the unmapped-block assertion;
  no clone is returned. An instruction without operands (a stack allocation) is cloned,
  to the new instruction at address 100.
\<close>

theorem clone_unmapped_operand:
  "clone (20, Access (LoadInst 1 (SILValue (SILInstruction 7) 0))) (SILCloner_new 100 [])
     = Inl UnmappedInstruction \<and>
   clone (20, Access (LoadInst 1 (SILValue (SILArgument 3) 0))) (SILCloner_new 100 [])
     = Inl UnmappedArgument \<and>
   clone (21, Term (BranchInst 1 9 [])) (SILCloner_new 100 []) = Inl UnmappedBasicBlock \<and>
   map_sum id fst (clone (22, Allocation (AllocStackInst 1 3)) (SILCloner_new 100 [])) = Inr 100"
  by (simp add: clone_def visit_def SILInstructionCloner_Impl_def SILCloner_Impl_def
      SILCloner_new_def bindE_def getOpValue_def getOpBasicBlock_def getOpLocation_def getOpType_def
      SILCloner_remapBasicBlock_def Builder_create_def doPostProcess_def postProcess_def
      getInst_def DenseMap_insert_def)

section \<open>Facts about the walk\<close>

text \<open>The equations of the walker, by cases.\<close>

lemma visitSILBasicBlock_Inr:
  "visitSILBasicBlock C Callee BB S = Inr S' \<longleftrightarrow>
     (\<exists>B S1. getBB Callee BB = Some B \<and> InstList B \<noteq> [] \<and>
        visitInsts C (butlast (InstList B)) (S\<lparr>Visited := Visited S @ [BB]\<rparr>) = Inr S1 \<and>
        visitSuccs C Callee (Succs B) S1 = Inr S')"
  by (auto simp: visitSILBasicBlock.simps split: option.splits sum.splits)

lemma visitSuccs_mapped:
  "BBMap S Succ \<noteq> None \<Longrightarrow> visitSuccs C Callee (Succ # Rest) S = visitSuccs C Callee Rest S"
  by (auto simp: visitSuccs.simps)

lemma visitSuccs_unmapped:
  "BBMap S Succ = None \<Longrightarrow> getBB Callee Succ = Some SuccBB \<Longrightarrow>
     visitSuccs C Callee (Succ # Rest) S =
       bindE (visitSILBasicBlock C Callee Succ (mapSuccessor Succ SuccBB S)) (visitSuccs C Callee Rest)"
  by (simp add: visitSuccs.simps bindE_def split: sum.splits)

lemma visitSuccs_unmapped_Inr:
  "BBMap S Succ = None \<Longrightarrow>
     visitSuccs C Callee (Succ # Rest) S = Inr S' \<longleftrightarrow>
       (\<exists>B S1. getBB Callee Succ = Some B \<and>
          visitSILBasicBlock C Callee Succ (mapSuccessor Succ B S) = Inr S1 \<and>
          visitSuccs C Callee Rest S1 = Inr S')"
  by (auto simp: visitSuccs.simps split: option.splits sum.splits)

text \<open>What the parts of the walker leave alone.\<close>

lemma visitInsts_Visited: "visitInsts C Is S = Inr S' \<Longrightarrow> Visited S' = Visited S"
  by (induction Is arbitrary: S) (auto split: sum.splits dest!: visit_Inr)

lemma mapBBArgs_Visited: "Visited (mapBBArgs M As S) = Visited S"
  by (induction As arbitrary: S) auto

lemma mapSuccessor_Visited: "Visited (mapSuccessor Succ B S) = Visited S"
  by (simp add: mapSuccessor_def Let_def mapBBArgs_Visited split: option.splits)

lemma mapBBArgs_Blocks: "Blocks (mapBBArgs M As S) = Blocks S"
  by (induction As arbitrary: S) auto

lemma visitInsts_Blocks: "visitInsts C Is S = Inr S' \<Longrightarrow> Blocks S' = Blocks S"
  by (induction Is arbitrary: S) (auto split: sum.splits dest!: visit_Inr)

lemma length_splice_before: "x \<in> set xs \<Longrightarrow> length (splice_before pos x xs) = length xs"
proof -
  assume x: "x \<in> set xs"
  have "length (takeWhile (\<lambda>y. y \<noteq> pos) (remove1 x xs)) + length (dropWhile (\<lambda>y. y \<noteq> pos) (remove1 x xs))
      = length (remove1 x xs)"
    by (metis length_append takeWhile_dropWhile_id)
  with x show ?thesis
    by (simp add: splice_before_def Let_def length_remove1) (metis One_nat_def Suc_pred length_pos_if_in_set)
qed

lemma mapSuccessor_Blocks_length:
  "length (Blocks (mapSuccessor Succ B S)) = Suc (length (Blocks S))"
  by (simp add: mapSuccessor_def Let_def mapBBArgs_Blocks length_splice_before split: option.splits)

text \<open>
  The blocks visited after the first one are the blocks that received their entry in
  \<^verbatim>\<open>BBMap\<close> during the walk, each once; one block is created for each.
\<close>

lemma walk_visited:
  "visitSILBasicBlock C Callee BB S = Inr S' \<Longrightarrow>
     BBMap S \<subseteq>\<^sub>m BBMap S' \<and>
     (\<exists>vs. Visited S' = Visited S @ BB # vs \<and> distinct vs \<and>
        set vs = dom (BBMap S') - dom (BBMap S) \<and>
        length (Blocks S') = length (Blocks S) + length vs)"
  "visitSuccs C Callee Ss S = Inr S'' \<Longrightarrow>
     BBMap S \<subseteq>\<^sub>m BBMap S'' \<and>
     (\<exists>vs. Visited S'' = Visited S @ vs \<and> distinct vs \<and>
        set vs = dom (BBMap S'') - dom (BBMap S) \<and>
        length (Blocks S'') = length (Blocks S) + length vs)"
proof (induction C Callee BB S and C Callee Ss S arbitrary: S' and S''
    rule: visitSILBasicBlock_visitSuccs.induct)
  case (1 C Callee BB S)
  from 1(2) obtain B S1 where B: "getBB Callee BB = Some B" and ne: "InstList B \<noteq> []"
    and S1: "visitInsts C (butlast (InstList B)) (S\<lparr>Visited := Visited S @ [BB]\<rparr>) = Inr S1"
    and R: "visitSuccs C Callee (Succs B) S1 = Inr S'"
    by (auto simp: visitSILBasicBlock_Inr)
  from 1(1)[OF B ne S1 R] obtain vs where le: "BBMap S1 \<subseteq>\<^sub>m BBMap S'"
    and vs: "Visited S' = Visited S1 @ vs" "distinct vs"
      "set vs = dom (BBMap S') - dom (BBMap S1)"
      "length (Blocks S') = length (Blocks S1) + length vs"
    by blast
  from visitInsts_BBMap[OF S1] visitInsts_Visited[OF S1] visitInsts_Blocks[OF S1] le vs
  show ?case by simp
next
  case (2 C Callee S)
  then show ?case by (simp add: visitSuccs.simps)
next
  case (3 C Callee Succ Rest S)
  show ?case
  proof (cases "BBMap S Succ = None")
    case False
    with 3(3,4) show ?thesis by (simp add: visitSuccs_mapped)
  next
    case True
    with 3(4) obtain B S1 where B: "getBB Callee Succ = Some B"
      and S1: "visitSILBasicBlock C Callee Succ (mapSuccessor Succ B S) = Inr S1"
      and R: "visitSuccs C Callee Rest S1 = Inr S''"
      by (auto simp: visitSuccs_unmapped_Inr)
    let ?S0 = "mapSuccessor Succ B S"
    from 3(1)[OF True B S1] obtain vs1 where le1: "BBMap ?S0 \<subseteq>\<^sub>m BBMap S1"
      and vs1: "Visited S1 = Visited ?S0 @ Succ # vs1" "distinct vs1"
        "set vs1 = dom (BBMap S1) - dom (BBMap ?S0)"
        "length (Blocks S1) = length (Blocks ?S0) + length vs1"
      by blast
    from 3(2)[OF True B S1 R] obtain vs2 where le2: "BBMap S1 \<subseteq>\<^sub>m BBMap S''"
      and vs2: "Visited S'' = Visited S1 @ vs2" "distinct vs2"
        "set vs2 = dom (BBMap S'') - dom (BBMap S1)"
        "length (Blocks S'') = length (Blocks S1) + length vs2"
      by blast
    have S0: "BBMap ?S0 = (BBMap S)(Succ \<mapsto> NextAddr S)"
      using True by (simp add: mapSuccessor_BBMap DenseMap_insert_def)
    have le0: "BBMap S \<subseteq>\<^sub>m BBMap ?S0"
      using True by (auto simp: S0 map_le_def)
    have le: "BBMap S \<subseteq>\<^sub>m BBMap S''"
      using le0 le1 le2 by (blast intro: map_le_trans)
    have d0: "dom (BBMap ?S0) = insert Succ (dom (BBMap S))" by (simp add: S0)
    have d1: "dom (BBMap ?S0) \<subseteq> dom (BBMap S1)" using le1 by (rule map_le_implies_dom_le)
    have d2: "dom (BBMap S1) \<subseteq> dom (BBMap S'')" using le2 by (rule map_le_implies_dom_le)
    have "Visited S'' = Visited S @ (Succ # vs1 @ vs2)"
      using vs1(1) vs2(1) by (simp add: mapSuccessor_Visited)
    moreover have "distinct (Succ # vs1 @ vs2)"
      using vs1(2,3) vs2(2,3) d0 d1 by auto
    moreover have "set (Succ # vs1 @ vs2) = dom (BBMap S'') - dom (BBMap S)"
    proof -
      have sets: "\<And>A A0 A1 A2 :: nat set. Succ \<notin> A \<Longrightarrow> A0 = insert Succ A \<Longrightarrow>
          A0 \<subseteq> A1 \<Longrightarrow> A1 \<subseteq> A2 \<Longrightarrow> insert Succ ((A1 - A0) \<union> (A2 - A1)) = A2 - A"
        by blast
      have notin: "Succ \<notin> dom (BBMap S)" using True by (simp add: dom_def)
      have "set (Succ # vs1 @ vs2) =
          insert Succ ((dom (BBMap S1) - dom (BBMap ?S0)) \<union> (dom (BBMap S'') - dom (BBMap S1)))"
        using vs1(3) vs2(3) by simp
      also have "\<dots> = dom (BBMap S'') - dom (BBMap S)"
        using notin d0 d1 d2 by (rule sets)
      finally show ?thesis .
    qed
    moreover have "length (Blocks S'') = length (Blocks S) + length (Succ # vs1 @ vs2)"
      using vs1(4) vs2(4) by (simp add: mapSuccessor_Blocks_length)
    ultimately show ?thesis using le by blast
  qed
qed

text \<open>Dispatch in order composes.\<close>

lemma cloned_in_order_Nil:
  "Dispatched S' = Dispatched S \<Longrightarrow> InstructionMap S' = InstructionMap S \<Longrightarrow>
   NewInsts S' = NewInsts S \<Longrightarrow> cloned_in_order [] S S'"
  by (simp add: cloned_in_order_def)

lemma cloned_in_orderI:
  assumes "Dispatched S' = Dispatched S @ map fst Is"
    "InstructionMap S \<subseteq>\<^sub>m InstructionMap S'" "fst ` set Is \<subseteq> dom (InstructionMap S')"
    "NewInsts S' = NewInsts S @ E" "map (getKind \<circ> snd \<circ> snd) E = map (getKind \<circ> snd) Is"
    "\<forall>I V. InstructionMap S' I = Some V \<and> InstructionMap S I = None \<longrightarrow>
           I \<in> fst ` set Is \<and> V \<in> fst ` set E"
  shows "cloned_in_order Is S S'"
proof -
  have "NewInsts S' = NewInsts S @ E \<and>
        map (getKind \<circ> snd \<circ> snd) E = map (getKind \<circ> snd) Is \<and>
        (\<forall>I V. InstructionMap S' I = Some V \<and> InstructionMap S I = None \<longrightarrow>
           I \<in> fst ` set Is \<and> V \<in> fst ` set E)"
    using assms(4,5,6) by simp
  then have "\<exists>E. NewInsts S' = NewInsts S @ E \<and>
        map (getKind \<circ> snd \<circ> snd) E = map (getKind \<circ> snd) Is \<and>
        (\<forall>I V. InstructionMap S' I = Some V \<and> InstructionMap S I = None \<longrightarrow>
           I \<in> fst ` set Is \<and> V \<in> fst ` set E)"
    by (rule exI)
  with assms(1,2,3) show ?thesis unfolding cloned_in_order_def by simp
qed

lemma cloned_in_orderE:
  assumes "cloned_in_order Is S S'"
  obtains E where "Dispatched S' = Dispatched S @ map fst Is"
    "InstructionMap S \<subseteq>\<^sub>m InstructionMap S'" "fst ` set Is \<subseteq> dom (InstructionMap S')"
    "NewInsts S' = NewInsts S @ E" "map (getKind \<circ> snd \<circ> snd) E = map (getKind \<circ> snd) Is"
    "\<forall>I V. InstructionMap S' I = Some V \<and> InstructionMap S I = None \<longrightarrow>
           I \<in> fst ` set Is \<and> V \<in> fst ` set E"
proof -
  from assms have 1: "Dispatched S' = Dispatched S @ map fst Is"
    and 2: "InstructionMap S \<subseteq>\<^sub>m InstructionMap S'"
    and 3: "fst ` set Is \<subseteq> dom (InstructionMap S')"
    and 4: "\<exists>E. NewInsts S' = NewInsts S @ E \<and>
        map (getKind \<circ> snd \<circ> snd) E = map (getKind \<circ> snd) Is \<and>
        (\<forall>I V. InstructionMap S' I = Some V \<and> InstructionMap S I = None \<longrightarrow>
           I \<in> fst ` set Is \<and> V \<in> fst ` set E)"
    unfolding cloned_in_order_def by simp_all
  from 4 obtain E where 5: "NewInsts S' = NewInsts S @ E"
    and 6: "map (getKind \<circ> snd \<circ> snd) E = map (getKind \<circ> snd) Is"
    and 7: "\<forall>I V. InstructionMap S' I = Some V \<and> InstructionMap S I = None \<longrightarrow>
           I \<in> fst ` set Is \<and> V \<in> fst ` set E"
    by (elim exE conjE)
  from 1 2 3 5 6 7 show thesis by (rule that)
qed

lemma cloned_in_order_trans:
  assumes "cloned_in_order Is S S1" "cloned_in_order Js S1 S2"
  shows "cloned_in_order (Is @ Js) S S2"
proof -
  from assms(1) obtain E1 where 1: "Dispatched S1 = Dispatched S @ map fst Is"
    "InstructionMap S \<subseteq>\<^sub>m InstructionMap S1" "fst ` set Is \<subseteq> dom (InstructionMap S1)"
    "NewInsts S1 = NewInsts S @ E1" "map (getKind \<circ> snd \<circ> snd) E1 = map (getKind \<circ> snd) Is"
    "\<forall>I V. InstructionMap S1 I = Some V \<and> InstructionMap S I = None \<longrightarrow>
           I \<in> fst ` set Is \<and> V \<in> fst ` set E1"
    by (rule cloned_in_orderE)
  from assms(2) obtain E2 where 2: "Dispatched S2 = Dispatched S1 @ map fst Js"
    "InstructionMap S1 \<subseteq>\<^sub>m InstructionMap S2" "fst ` set Js \<subseteq> dom (InstructionMap S2)"
    "NewInsts S2 = NewInsts S1 @ E2" "map (getKind \<circ> snd \<circ> snd) E2 = map (getKind \<circ> snd) Js"
    "\<forall>I V. InstructionMap S2 I = Some V \<and> InstructionMap S1 I = None \<longrightarrow>
           I \<in> fst ` set Js \<and> V \<in> fst ` set E2"
    by (rule cloned_in_orderE)
  show ?thesis
  proof (rule cloned_in_orderI[where E = "E1 @ E2"])
    show "Dispatched S2 = Dispatched S @ map fst (Is @ Js)" using 1(1) 2(1) by simp
    show "InstructionMap S \<subseteq>\<^sub>m InstructionMap S2" using 1(2) 2(2) by (rule map_le_trans)
    have "dom (InstructionMap S1) \<subseteq> dom (InstructionMap S2)"
      using 2(2) by (rule map_le_implies_dom_le)
    with 1(3) have "fst ` set Is \<subseteq> dom (InstructionMap S2)" by (rule subset_trans)
    with 2(3) show "fst ` set (Is @ Js) \<subseteq> dom (InstructionMap S2)"
      by (simp add: image_Un)
    show "NewInsts S2 = NewInsts S @ (E1 @ E2)" using 1(4) 2(4) by simp
    show "map (getKind \<circ> snd \<circ> snd) (E1 @ E2) = map (getKind \<circ> snd) (Is @ Js)"
      using 1(5) 2(5) by simp
    show "\<forall>I V. InstructionMap S2 I = Some V \<and> InstructionMap S I = None \<longrightarrow>
           I \<in> fst ` set (Is @ Js) \<and> V \<in> fst ` set (E1 @ E2)"
    proof (intro allI impI, elim conjE)
      fix I V assume s2: "InstructionMap S2 I = Some V" and s: "InstructionMap S I = None"
      show "I \<in> fst ` set (Is @ Js) \<and> V \<in> fst ` set (E1 @ E2)"
      proof (cases "InstructionMap S1 I")
        case None
        with 2(6) s2 show ?thesis by (simp add: image_Un)
      next
        case (Some W)
        with 2(2) have "InstructionMap S2 I = Some W" by (simp add: map_le_def dom_def)
        with s2 Some have "InstructionMap S1 I = Some V" by simp
        with 1(6) s show ?thesis by (simp add: image_Un)
      qed
    qed
  qed
qed

lemma visit_cloned: "visit C I S = Inr (v, S') \<Longrightarrow> cloned_in_order [I] S S'"
proof -
  assume "visit C I S = Inr (v, S')"
  from visit_Inr[OF this] obtain I' where c: "cloneInst C S (snd I) = Inr I'"
    and S': "S' = S\<lparr>Dispatched := Dispatched S @ [fst I], NextAddr := NextAddr S + 1,
              NewInsts := NewInsts S @ [(NextAddr S, InsertionBB S, I')],
              InstructionMap := DenseMap_insert (InstructionMap S) (fst I) (NextAddr S)\<rparr>"
    by blast
  show ?thesis
  proof (rule cloned_in_orderI[where E = "[(NextAddr S, InsertionBB S, I')]"])
    show "Dispatched S' = Dispatched S @ map fst [I]" by (simp add: S')
    show "InstructionMap S \<subseteq>\<^sub>m InstructionMap S'"
      by (auto simp: S' DenseMap_insert_def map_le_def)
    show "fst ` set [I] \<subseteq> dom (InstructionMap S')"
      by (auto simp: S' DenseMap_insert_def)
    show "NewInsts S' = NewInsts S @ [(NextAddr S, InsertionBB S, I')]" by (simp add: S')
    show "map (getKind \<circ> snd \<circ> snd) [(NextAddr S, InsertionBB S, I')] = map (getKind \<circ> snd) [I]"
      using cloneInst_kind[OF c] by simp
    show "\<forall>J V. InstructionMap S' J = Some V \<and> InstructionMap S J = None \<longrightarrow>
        J \<in> fst ` set [I] \<and> V \<in> fst ` set [(NextAddr S, InsertionBB S, I')]"
      by (auto simp: S' DenseMap_insert_def split: if_splits)
  qed
qed

lemma visitInsts_cloned: "visitInsts C Is S = Inr S' \<Longrightarrow> cloned_in_order Is S S'"
proof (induction Is arbitrary: S)
  case Nil
  then show ?case by (simp add: cloned_in_order_Nil)
next
  case (Cons I Is)
  from Cons.prems obtain v S1 where 1: "visit C I S = Inr (v, S1)" and 2: "visitInsts C Is S1 = Inr S'"
    by (auto split: sum.splits)
  from cloned_in_order_trans[OF visit_cloned[OF 1] Cons.IH[OF 2]] show ?case by simp
qed

lemma mapBBArgs_frame:
  "Dispatched (mapBBArgs M As S) = Dispatched S"
  "InstructionMap (mapBBArgs M As S) = InstructionMap S"
  "NewInsts (mapBBArgs M As S) = NewInsts S"
  by (induction As arbitrary: S) auto

lemma mapSuccessor_frame:
  "Dispatched (mapSuccessor Succ B S) = Dispatched S"
  "InstructionMap (mapSuccessor Succ B S) = InstructionMap S"
  "NewInsts (mapSuccessor Succ B S) = NewInsts S"
  by (simp_all add: mapSuccessor_def Let_def mapBBArgs_frame split: option.splits)

text \<open>
  A walk dispatches the instructions before the terminators of the blocks it visits, block
  after block.
\<close>

lemma walk_cloned:
  "visitSILBasicBlock C Callee BB S = Inr S' \<Longrightarrow>
     \<exists>vs. Visited S' = Visited S @ vs \<and>
       cloned_in_order (concat (map (nonTerminators Callee) vs)) S S'"
  "visitSuccs C Callee Ss S = Inr S'' \<Longrightarrow>
     \<exists>vs. Visited S'' = Visited S @ vs \<and>
       cloned_in_order (concat (map (nonTerminators Callee) vs)) S S''"
proof (induction C Callee BB S and C Callee Ss S arbitrary: S' and S''
    rule: visitSILBasicBlock_visitSuccs.induct)
  case (1 C Callee BB S)
  from 1(2) obtain B S1 where B: "getBB Callee BB = Some B" and ne: "InstList B \<noteq> []"
    and S1: "visitInsts C (butlast (InstList B)) (S\<lparr>Visited := Visited S @ [BB]\<rparr>) = Inr S1"
    and R: "visitSuccs C Callee (Succs B) S1 = Inr S'"
    by (auto simp: visitSILBasicBlock_Inr)
  from 1(1)[OF B ne S1 R] obtain vs where vs: "Visited S' = Visited S1 @ vs"
    "cloned_in_order (concat (map (nonTerminators Callee) vs)) S1 S'"
    by blast
  have nt: "nonTerminators Callee BB = butlast (InstList B)"
    by (simp add: nonTerminators_def B butlast_conv_take)
  have "cloned_in_order (butlast (InstList B)) S S1"
    using visitInsts_cloned[OF S1] unfolding cloned_in_order_def by simp
  from cloned_in_order_trans[OF this vs(2)] vs(1) visitInsts_Visited[OF S1] nt
  show ?case by (intro exI[of _ "BB # vs"]) simp
next
  case (2 C Callee S)
  then show ?case by (simp add: visitSuccs.simps cloned_in_order_Nil)
next
  case (3 C Callee Succ Rest S)
  show ?case
  proof (cases "BBMap S Succ = None")
    case False
    with 3(3,4) show ?thesis by (simp add: visitSuccs_mapped)
  next
    case True
    with 3(4) obtain B S1 where B: "getBB Callee Succ = Some B"
      and S1: "visitSILBasicBlock C Callee Succ (mapSuccessor Succ B S) = Inr S1"
      and R: "visitSuccs C Callee Rest S1 = Inr S''"
      by (auto simp: visitSuccs_unmapped_Inr)
    let ?S0 = "mapSuccessor Succ B S"
    from 3(1)[OF True B S1] obtain vs1 where vs1: "Visited S1 = Visited ?S0 @ vs1"
      "cloned_in_order (concat (map (nonTerminators Callee) vs1)) ?S0 S1"
      by blast
    from 3(2)[OF True B S1 R] obtain vs2 where vs2: "Visited S'' = Visited S1 @ vs2"
      "cloned_in_order (concat (map (nonTerminators Callee) vs2)) S1 S''"
      by blast
    have "cloned_in_order (concat (map (nonTerminators Callee) vs1)) S S1"
      using vs1(2) unfolding cloned_in_order_def mapSuccessor_frame .
    from cloned_in_order_trans[OF this vs2(2)] vs1(1) vs2(1)
    show ?thesis by (intro exI[of _ "vs1 @ vs2"]) (simp add: mapSuccessor_Visited)
  qed
qed

text \<open>The walker only adds entries to the maps.\<close>

lemma maps_le_refl: "maps_le S S"
  by (simp add: maps_le_def)

lemma maps_le_trans: "maps_le S T \<Longrightarrow> maps_le T U \<Longrightarrow> maps_le S U"
  unfolding maps_le_def by (blast intro: map_le_trans)

lemma DenseMap_insert_le: "m \<subseteq>\<^sub>m DenseMap_insert m k v"
  by (auto simp: DenseMap_insert_def map_le_def)

lemma visit_maps_le: "visit C I S = Inr (v, S') \<Longrightarrow> maps_le S S'"
  by (drule visit_Inr) (auto simp: maps_le_def DenseMap_insert_le)

lemma visitInsts_maps_le: "visitInsts C Is S = Inr S' \<Longrightarrow> maps_le S S'"
proof (induction Is arbitrary: S)
  case Nil
  then show ?case by (simp add: maps_le_refl)
next
  case (Cons I Is)
  from Cons.prems obtain v S1 where 1: "visit C I S = Inr (v, S1)" and 2: "visitInsts C Is S1 = Inr S'"
    by (auto split: sum.splits)
  from maps_le_trans[OF visit_maps_le[OF 1] Cons.IH[OF 2]] show ?case .
qed

lemma mapBBArgs_maps_le: "maps_le S (mapBBArgs M As S)"
proof (induction As arbitrary: S)
  case Nil
  then show ?case by (simp add: maps_le_refl)
next
  case (Cons A As)
  have "maps_le S (S\<lparr>NextAddr := NextAddr S + 1,
          NewArgs := NewArgs S @ [(NextAddr S, M, snd A)],
          ArgumentMap := DenseMap_insert (ArgumentMap S) (fst A)
                           (SILValue (SILArgument (NextAddr S)) 0)\<rparr>)"
    by (simp add: maps_le_def DenseMap_insert_le)
  from maps_le_trans[OF this Cons.IH] show ?case by simp
qed

lemma mapSuccessor_maps_le: "maps_le S (mapSuccessor Succ B S)"
proof -
  let ?S1 = "S\<lparr>NextAddr := NextAddr S + 1, Blocks := Blocks S @ [NextAddr S],
                 BBMap := DenseMap_insert (BBMap S) Succ (NextAddr S)\<rparr>"
  have 1: "maps_le S ?S1" by (simp add: maps_le_def DenseMap_insert_le)
  have 2: "maps_le ?S1 (mapBBArgs (NextAddr S) (BBArgs B) ?S1)" by (rule mapBBArgs_maps_le)
  have "maps_le (mapBBArgs (NextAddr S) (BBArgs B) ?S1) (mapSuccessor Succ B S)"
    by (simp add: mapSuccessor_def Let_def maps_le_def split: option.splits)
  from maps_le_trans[OF maps_le_trans[OF 1 2] this] show ?thesis .
qed

lemma walk_maps_le:
  "visitSILBasicBlock C Callee BB S = Inr S' \<Longrightarrow> maps_le S S'"
  "visitSuccs C Callee Ss S = Inr S'' \<Longrightarrow> maps_le S S''"
proof (induction C Callee BB S and C Callee Ss S arbitrary: S' and S''
    rule: visitSILBasicBlock_visitSuccs.induct)
  case (1 C Callee BB S)
  from 1(2) obtain B S1 where B: "getBB Callee BB = Some B" and ne: "InstList B \<noteq> []"
    and S1: "visitInsts C (butlast (InstList B)) (S\<lparr>Visited := Visited S @ [BB]\<rparr>) = Inr S1"
    and R: "visitSuccs C Callee (Succs B) S1 = Inr S'"
    by (auto simp: visitSILBasicBlock_Inr)
  have "maps_le S (S\<lparr>Visited := Visited S @ [BB]\<rparr>)" by (simp add: maps_le_def)
  from maps_le_trans[OF maps_le_trans[OF this visitInsts_maps_le[OF S1]] 1(1)[OF B ne S1 R]]
  show ?case .
next
  case (2 C Callee S)
  then show ?case by (simp add: visitSuccs.simps maps_le_refl)
next
  case (3 C Callee Succ Rest S)
  show ?case
  proof (cases "BBMap S Succ = None")
    case False
    with 3(3,4) show ?thesis by (simp add: visitSuccs_mapped)
  next
    case True
    with 3(4) obtain B S1 where B: "getBB Callee Succ = Some B"
      and S1: "visitSILBasicBlock C Callee Succ (mapSuccessor Succ B S) = Inr S1"
      and R: "visitSuccs C Callee Rest S1 = Inr S''"
      by (auto simp: visitSuccs_unmapped_Inr)
    from maps_le_trans[OF maps_le_trans[OF mapSuccessor_maps_le 3(1)[OF True B S1]]
        3(2)[OF True B S1 R]]
    show ?thesis .
  qed
qed

text \<open>Every block visited is a block of \<open>Callee\<close> and has a terminator.\<close>

lemma walk_valid:
  "visitSILBasicBlock C Callee BB S = Inr S' \<Longrightarrow>
     \<forall>b \<in> set (drop (length (Visited S)) (Visited S')). \<exists>B. getBB Callee b = Some B \<and> InstList B \<noteq> []"
  "visitSuccs C Callee Ss S = Inr S'' \<Longrightarrow>
     \<forall>b \<in> set (drop (length (Visited S)) (Visited S'')). \<exists>B. getBB Callee b = Some B \<and> InstList B \<noteq> []"
proof (induction C Callee BB S and C Callee Ss S arbitrary: S' and S''
    rule: visitSILBasicBlock_visitSuccs.induct)
  case (1 C Callee BB S)
  from 1(2) obtain B S1 where B: "getBB Callee BB = Some B" and ne: "InstList B \<noteq> []"
    and S1: "visitInsts C (butlast (InstList B)) (S\<lparr>Visited := Visited S @ [BB]\<rparr>) = Inr S1"
    and R: "visitSuccs C Callee (Succs B) S1 = Inr S'"
    by (auto simp: visitSILBasicBlock_Inr)
  from walk_visited(2)[OF R] obtain vs where vs: "Visited S' = Visited S1 @ vs" by blast
  have v1: "Visited S1 = Visited S @ [BB]" using visitInsts_Visited[OF S1] by simp
  from 1(1)[OF B ne S1 R] vs v1 B ne show ?case by auto
next
  case (2 C Callee S)
  then show ?case by (simp add: visitSuccs.simps)
next
  case (3 C Callee Succ Rest S)
  show ?case
  proof (cases "BBMap S Succ = None")
    case False
    with 3(3,4) show ?thesis by (simp add: visitSuccs_mapped)
  next
    case True
    with 3(4) obtain B S1 where B: "getBB Callee Succ = Some B"
      and S1: "visitSILBasicBlock C Callee Succ (mapSuccessor Succ B S) = Inr S1"
      and R: "visitSuccs C Callee Rest S1 = Inr S''"
      by (auto simp: visitSuccs_unmapped_Inr)
    from walk_visited(1)[OF S1] obtain vs1 where vs1: "Visited S1 = Visited S @ Succ # vs1"
      by (auto simp: mapSuccessor_Visited)
    from walk_visited(2)[OF R] obtain vs2 where vs2: "Visited S'' = Visited S1 @ vs2" by blast
    from 3(1)[OF True B S1] 3(2)[OF True B S1 R] vs1 vs2
    show ?thesis by (auto simp: mapSuccessor_Visited)
  qed
qed

section \<open>The walks of the diamond and of the self loop\<close>

text \<open>
  Both walks start at block 0 with the default hooks and empty maps. The equations of the
  model are evaluated by rewriting.
\<close>

lemmas walk_eval =
  visitSILBasicBlock.simps visitSuccs.simps(2) getBB_def mapSuccessor_def Let_def
  visit_eq bindE_def DenseMap_insert_def splice_before_def
  getOpValue_def getOpLocation_def getOpType_def getOpBasicBlock_def
  SILCloner_Impl_def SILCloner_new_def walkStart_def

lemma diamond_walk:
  "\<exists>S'. visitSILBasicBlock SILCloner_Impl diamondCFG 0 walkStart = Inr S' \<and>
     Visited S' = [0, 1, 3, 2] \<and> Dispatched S' = [10, 14] \<and>
     Blocks S' = [50, 101, 102, 105] \<and>
     BBMap S' = [1 \<mapsto> 101, 3 \<mapsto> 102, 2 \<mapsto> 105] \<and>
     NewArgs S' = [(103, 102, 7)] \<and>
     ArgumentMap S' = [20 \<mapsto> SILValue (SILArgument 103) 0] \<and>
     InstructionMap S' = [10 \<mapsto> 100, 14 \<mapsto> 104] \<and>
     NewInsts S' = [(100, Some 50, Allocation (AllocStackInst 1 5)),
                    (104, Some 102, Access (LoadInst 1 (SILValue (SILArgument 103) 0)))] \<and>
     NextAddr S' = 106"
  by (simp add: walk_eval diamondCFG_def)

lemma selfLoop_walk:
  "\<exists>S'. visitSILBasicBlock SILCloner_Impl selfLoopCFG 0 walkStart = Inr S' \<and>
     Visited S' = [0, 0] \<and> Dispatched S' = [10, 10] \<and>
     Blocks S' = [50, 101] \<and>
     BBMap S' = [0 \<mapsto> 101] \<and>
     NewArgs S' = [(102, 101, 7)] \<and>
     ArgumentMap S' = [20 \<mapsto> SILValue (SILArgument 102) 0] \<and>
     InstructionMap S' = [10 \<mapsto> 100] \<and>
     NewInsts S' = [(100, Some 50, Allocation (AllocStackInst 1 5)),
                    (103, Some 101, Allocation (AllocStackInst 1 5))] \<and>
     NextAddr S' = 104"
  by (simp add: walk_eval selfLoopCFG_def)

text \<open>
  The self loop walked with an entry for block 0 made beforehand, and block 3 of the
  diamond visited as a successor.
\<close>

lemma selfLoop_walk_premapped:
  "\<exists>S'. visitSILBasicBlock SILCloner_Impl selfLoopCFG 0 (walkStart\<lparr>BBMap := [0 \<mapsto> 60]\<rparr>) = Inr S' \<and>
     Visited S' = [0] \<and> Dispatched S' = [10] \<and> Blocks S' = [50] \<and>
     BBMap S' = [0 \<mapsto> 60] \<and> NewArgs S' = []"
  by (simp add: walk_eval selfLoopCFG_def)

lemma diamond_walk_from_3:
  "\<exists>S'. visitSILBasicBlock SILCloner_Impl diamondCFG 3
          (mapSuccessor 3 (the (getBB diamondCFG 3)) walkStart) = Inr S' \<and>
     BBMap S' = [3 \<mapsto> 100] \<and>
     ArgumentMap S' = [20 \<mapsto> SILValue (SILArgument 101) 0] \<and>
     InstructionMap S' = [14 \<mapsto> 102] \<and>
     NewInsts S' = [(102, Some 100, Access (LoadInst 1 (SILValue (SILArgument 101) 0)))]"
  by (simp add: walk_eval diamondCFG_def)



lemma readingLoop_walk_unmapped:
  "visitSILBasicBlock SILCloner_Impl readingLoopCFG 0 walkStart = Inl UnmappedArgument"
  by (simp add: walk_eval readingLoopCFG_def)

section \<open>Blocks, arguments and instructions created by a walk\<close>



lemma mapBBArgs_dom:
  "fst ` set As \<subseteq> dom (ArgumentMap (mapBBArgs M As S))"
proof (induction As arbitrary: S)
  case Nil
  then show ?case by simp
next
  case (Cons A As)
  let ?S1 = "S\<lparr>NextAddr := NextAddr S + 1,
          NewArgs := NewArgs S @ [(NextAddr S, M, snd A)],
          ArgumentMap := DenseMap_insert (ArgumentMap S) (fst A)
                           (SILValue (SILArgument (NextAddr S)) 0)\<rparr>"
  have "fst A \<in> dom (ArgumentMap ?S1)" by (auto simp: DenseMap_insert_def)
  moreover have "dom (ArgumentMap ?S1) \<subseteq> dom (ArgumentMap (mapBBArgs M As ?S1))"
    using mapBBArgs_maps_le[of ?S1 M As] by (simp add: maps_le_def map_le_implies_dom_le)
  ultimately show ?case using Cons.IH[of ?S1] by auto
qed

lemma mapBBArgs_NewArgs:
  "NewArgs (mapBBArgs M As S) =
     NewArgs S @ map (\<lambda>(a, A). (a, M, snd A)) (zip [NextAddr S ..< NextAddr S + length As] As)"
proof (induction As arbitrary: S)
  case Nil
  then show ?case by simp
next
  case (Cons A As)
  have "[NextAddr S ..< NextAddr S + length (A # As)]
      = NextAddr S # [Suc (NextAddr S) ..< NextAddr S + length (A # As)]"
    by (rule upt_conv_Cons) simp
  moreover have "NextAddr S + length (A # As) = Suc (NextAddr S) + length As" by simp
  ultimately have "[NextAddr S ..< NextAddr S + length (A # As)]
      = NextAddr S # [Suc (NextAddr S) ..< Suc (NextAddr S) + length As]"
    by (simp only:)
  then show ?case
    by (simp only: mapBBArgs.simps Cons.IH) simp
qed

lemma mapSuccessor_ArgumentMap:
  "ArgumentMap (mapSuccessor Succ B S) =
     ArgumentMap (mapBBArgs (NextAddr S) (BBArgs B)
       (S\<lparr>NextAddr := NextAddr S + 1, Blocks := Blocks S @ [NextAddr S],
          BBMap := DenseMap_insert (BBMap S) Succ (NextAddr S)\<rparr>))"
  by (simp add: mapSuccessor_def Let_def split: option.splits)

lemma nonTerminators_last:
  "getBB Callee b = Some B \<Longrightarrow> InstList B \<noteq> [] \<Longrightarrow>
     InstList B = nonTerminators Callee b @ [last (InstList B)]"
proof -
  assume B: "getBB Callee b = Some B" and ne: "InstList B \<noteq> []"
  have "nonTerminators Callee b = butlast (InstList B)"
    by (simp add: nonTerminators_def B butlast_conv_take)
  with ne show ?thesis by simp
qed

section \<open>Visit once\<close>

text \<open>
  C1: every block reachable from the start block is visited at most once. The header says
  the same of the walker: it visits the blocks in depth-first preorder, "only processing
  blocks on the first visit". The walker looks a block up in \<^verbatim>\<open>BBMap\<close>, and enters it there,
  only as a successor; the block it is called on first is never entered. In the self loop
  walked from block 0 with empty maps, block 0 is reachable from itself: it is visited
  twice, its instruction 10 is dispatched twice and has two clones, at 100 in the block the
  builder inserts into and at 103 in the new block 101. With an entry for block 0 made
  before the walk the same loop is visited once. In the diamond the start block is on no
  cycle: the walk from block 0 visits the blocks 0, 1, 3, 2 in this order, each once, and
  block 3 gets its one entry.
\<close>

theorem start_block_visited_twice:
  "map_sum id Visited (visitSILBasicBlock SILCloner_Impl selfLoopCFG 0 walkStart) = Inr [0, 0] \<and>
   map_sum id Dispatched (visitSILBasicBlock SILCloner_Impl selfLoopCFG 0 walkStart)
     = Inr [10, 10] \<and>
   map_sum id NewInsts (visitSILBasicBlock SILCloner_Impl selfLoopCFG 0 walkStart)
     = Inr [(100, Some 50, Allocation (AllocStackInst 1 5)),
            (103, Some 101, Allocation (AllocStackInst 1 5))] \<and>
   map_sum id Visited
     (visitSILBasicBlock SILCloner_Impl selfLoopCFG 0 (walkStart\<lparr>BBMap := [0 \<mapsto> 60]\<rparr>))
     = Inr [0] \<and>
   map_sum id Visited (visitSILBasicBlock SILCloner_Impl diamondCFG 0 walkStart)
     = Inr [0, 1, 3, 2] \<and>
   map_sum id BBMap (visitSILBasicBlock SILCloner_Impl diamondCFG 0 walkStart)
     = Inr [1 \<mapsto> 101, 3 \<mapsto> 102, 2 \<mapsto> 105]"
  using selfLoop_walk selfLoop_walk_premapped diamond_walk by auto

section \<open>Dispatch of the instructions before the terminator\<close>

text \<open>
  C2. A call of \<^verbatim>\<open>visitSILBasicBlock\<close> that returns first dispatches the instructions of its
  block other than the last one, in order, to \<^verbatim>\<open>visit\<close>: each is cloned, to an instruction of
  its kind, and has an entry in \<^verbatim>\<open>InstructionMap\<close> afterwards. Over the whole walk, the
  instructions dispatched are those of the blocks visited, block after block in visiting
  order, each block without its last instruction; every block visited consists of the
  instructions dispatched for it followed by its terminator, which is not dispatched.
\<close>

theorem walk_dispatches_non_terminators:
  assumes "visitSILBasicBlock C Callee BB S = Inr S'"
  shows "(\<exists>S1. visitInsts C (nonTerminators Callee BB) (S\<lparr>Visited := Visited S @ [BB]\<rparr>) = Inr S1 \<and>
        cloned_in_order (nonTerminators Callee BB) S S1 \<and> maps_le S1 S') \<and>
     hd (drop (length (Visited S)) (Visited S')) = BB \<and>
     (\<forall>b \<in> set (drop (length (Visited S)) (Visited S')).
        \<exists>B. getBB Callee b = Some B \<and> InstList B = nonTerminators Callee b @ [last (InstList B)]) \<and>
     cloned_in_order
       (concat (map (nonTerminators Callee) (drop (length (Visited S)) (Visited S')))) S S'"
proof -
  from assms obtain B S1 where B: "getBB Callee BB = Some B" and ne: "InstList B \<noteq> []"
    and S1: "visitInsts C (butlast (InstList B)) (S\<lparr>Visited := Visited S @ [BB]\<rparr>) = Inr S1"
    and R: "visitSuccs C Callee (Succs B) S1 = Inr S'"
    by (auto simp: visitSILBasicBlock_Inr)
  have nt: "nonTerminators Callee BB = butlast (InstList B)"
    by (simp add: nonTerminators_def B butlast_conv_take)
  have "cloned_in_order (butlast (InstList B)) S S1"
    using visitInsts_cloned[OF S1] unfolding cloned_in_order_def by simp
  with S1 nt walk_maps_le(2)[OF R]
  have 1: "\<exists>S1. visitInsts C (nonTerminators Callee BB) (S\<lparr>Visited := Visited S @ [BB]\<rparr>) = Inr S1 \<and>
        cloned_in_order (nonTerminators Callee BB) S S1 \<and> maps_le S1 S'"
    by auto
  from walk_visited(1)[OF assms] obtain vs where vs: "Visited S' = Visited S @ BB # vs"
    by blast
  then have d: "drop (length (Visited S)) (Visited S') = BB # vs" by simp
  from walk_cloned(1)[OF assms] obtain ws where ws: "Visited S' = Visited S @ ws"
    "cloned_in_order (concat (map (nonTerminators Callee) ws)) S S'"
    by blast
  with vs have "ws = BB # vs" by simp
  with ws(2) d have 3: "cloned_in_order
       (concat (map (nonTerminators Callee) (drop (length (Visited S)) (Visited S')))) S S'"
    by simp
  have 2: "\<forall>b \<in> set (drop (length (Visited S)) (Visited S')).
        \<exists>B. getBB Callee b = Some B \<and> InstList B = nonTerminators Callee b @ [last (InstList B)]"
    using walk_valid(1)[OF assms] nonTerminators_last by blast
  from 1 2 3 d show ?thesis by simp
qed

theorem walk_dispatches_non_terminators_witness:
  "\<exists>S'. visitSILBasicBlock SILCloner_Impl diamondCFG 0 walkStart = Inr S' \<and>
     Visited walkStart = [] \<and> Visited S' = [0, 1, 3, 2] \<and>
     map (map fst \<circ> nonTerminators diamondCFG) [0, 1, 3, 2] = [[10], [], [14], []] \<and>
     Dispatched walkStart = [] \<and> Dispatched S' = [10, 14] \<and>
     cloned_in_order (concat (map (nonTerminators diamondCFG) [0, 1, 3, 2])) walkStart S' \<and>
     InstructionMap S' = [10 \<mapsto> 100, 14 \<mapsto> 104] \<and>
     NewInsts S' = [(100, Some 50, Allocation (AllocStackInst 1 5)),
                    (104, Some 102, Access (LoadInst 1 (SILValue (SILArgument 103) 0)))]"
proof -
  from diamond_walk obtain S' where
    e: "visitSILBasicBlock SILCloner_Impl diamondCFG 0 walkStart = Inr S'"
    and f: "Visited S' = [0, 1, 3, 2]" "Dispatched S' = [10, 14]"
      "InstructionMap S' = [10 \<mapsto> 100, 14 \<mapsto> 104]"
      "NewInsts S' = [(100, Some 50, Allocation (AllocStackInst 1 5)),
                    (104, Some 102, Access (LoadInst 1 (SILValue (SILArgument 103) 0)))]"
    by blast
  have w: "Visited walkStart = []" "Dispatched walkStart = []"
    by (simp_all add: walkStart_def SILCloner_new_def)
  have n: "map (map fst \<circ> nonTerminators diamondCFG) [0, 1, 3, 2] = [[10], [], [14], []]"
    by (simp add: nonTerminators_def getBB_def diamondCFG_def)
  from walk_dispatches_non_terminators[OF e] e f w n show ?thesis
    by simp
qed

section \<open>The arguments of a new block\<close>

text \<open>
  C3. With a derived cloner whose \<^verbatim>\<open>remapType\<close> adds 1000 to every type, the walk of the
  diamond creates the argument of the clone of block 3 with the type 7 of the original
  argument, not with \<^verbatim>\<open>remapType\<close> of it, which is 1007. The type of the stack allocation
  cloned on the same walk is remapped, from 5 to 1005: the clone rules apply \<^verbatim>\<open>getOpType\<close> to
  every type, the walker passes \<^verbatim>\<open>Arg->getType()\<close> on as it is.
\<close>

theorem block_argument_type_not_remapped:
  "map_sum id NewArgs (visitSILBasicBlock substCloner diamondCFG 0 walkStart)
     = Inr [(103, 102, 7)] \<and>
   remapType substCloner 7 = 1007 \<and>
   map_sum id NewInsts (visitSILBasicBlock substCloner diamondCFG 0 walkStart)
     = Inr [(100, Some 50, Allocation (AllocStackInst 1 1005)),
            (104, Some 102, Access (LoadInst 1 (SILValue (SILArgument 103) 0)))]"
  by (simp add: walk_eval diamondCFG_def substCloner_def)

section \<open>The self loop\<close>




section \<open>Entries before the recursive visit\<close>

text \<open>
  C10. For a successor without entry in \<^verbatim>\<open>BBMap\<close>, the loop over the successors first
  applies \<open>mapSuccessor\<close> and then visits the successor in the state so obtained. In that
  state the successor has its entry in \<^verbatim>\<open>BBMap\<close> and each of its arguments has an entry in
  \<^verbatim>\<open>ArgumentMap\<close>. The steps of the visit (cloning an instruction, mapping a further
  successor) keep every entry, and so does the visit as a whole; in every state that keeps
  the entries, the default \<^verbatim>\<open>remapBasicBlock\<close> of the successor and the default \<^verbatim>\<open>remapValue\<close>
  of each of its arguments return, and return what they return at the beginning of the
  visit.
\<close>

theorem successor_mapped_before_visit:
  assumes "BBMap S Succ = None" and "getBB Callee Succ = Some SuccBB"
  shows "visitSuccs C Callee (Succ # Rest) S =
       bindE (visitSILBasicBlock C Callee Succ (mapSuccessor Succ SuccBB S)) (visitSuccs C Callee Rest) \<and>
     BBMap (mapSuccessor Succ SuccBB S) Succ = Some (NextAddr S) \<and>
     (\<forall>A \<in> fst ` set (BBArgs SuccBB). ArgumentMap (mapSuccessor Succ SuccBB S) A \<noteq> None) \<and>
     (\<forall>S'. visitSILBasicBlock C Callee Succ (mapSuccessor Succ SuccBB S) = Inr S' \<longrightarrow>
        maps_le (mapSuccessor Succ SuccBB S) S') \<and>
     (\<forall>T. maps_le (mapSuccessor Succ SuccBB S) T \<longrightarrow>
        SILCloner_remapBasicBlock T Succ = Inr (NextAddr S) \<and>
        (\<forall>A \<in> fst ` set (BBArgs SuccBB).
           SILCloner_remapValue T (SILValue (SILArgument A) 0) =
           SILCloner_remapValue (mapSuccessor Succ SuccBB S) (SILValue (SILArgument A) 0) \<and>
           (\<exists>v. SILCloner_remapValue T (SILValue (SILArgument A) 0) = Inr v))) \<and>
     (\<forall>T I v T'. maps_le (mapSuccessor Succ SuccBB S) T \<and> visit C I T = Inr (v, T') \<longrightarrow>
        maps_le (mapSuccessor Succ SuccBB S) T') \<and>
     (\<forall>T b B. maps_le (mapSuccessor Succ SuccBB S) T \<longrightarrow>
        maps_le (mapSuccessor Succ SuccBB S) (mapSuccessor b B T))"
proof -
  let ?S0 = "mapSuccessor Succ SuccBB S"
  have 1: "visitSuccs C Callee (Succ # Rest) S =
       bindE (visitSILBasicBlock C Callee Succ ?S0) (visitSuccs C Callee Rest)"
    using assms by (rule visitSuccs_unmapped)
  have 2: "BBMap ?S0 Succ = Some (NextAddr S)"
    using assms(1) by (simp add: mapSuccessor_BBMap DenseMap_insert_def)
  have 3: "\<forall>A \<in> fst ` set (BBArgs SuccBB). ArgumentMap ?S0 A \<noteq> None"
    using mapBBArgs_dom[of "BBArgs SuccBB"] unfolding mapSuccessor_ArgumentMap by blast
  have 4: "\<forall>S'. visitSILBasicBlock C Callee Succ ?S0 = Inr S' \<longrightarrow> maps_le ?S0 S'"
    by (simp add: walk_maps_le(1))
  have 5: "\<forall>T. maps_le ?S0 T \<longrightarrow>
        SILCloner_remapBasicBlock T Succ = Inr (NextAddr S) \<and>
        (\<forall>A \<in> fst ` set (BBArgs SuccBB).
           SILCloner_remapValue T (SILValue (SILArgument A) 0) =
           SILCloner_remapValue ?S0 (SILValue (SILArgument A) 0) \<and>
           (\<exists>v. SILCloner_remapValue T (SILValue (SILArgument A) 0) = Inr v))"
  proof (intro allI impI conjI ballI)
    fix T assume le: "maps_le ?S0 T"
    from le 2 have "BBMap T Succ = Some (NextAddr S)"
      by (auto simp: maps_le_def map_le_def dom_def)
    then show "SILCloner_remapBasicBlock T Succ = Inr (NextAddr S)"
      by (simp add: SILCloner_remapBasicBlock_def)
    fix A assume "A \<in> fst ` set (BBArgs SuccBB)"
    with 3 obtain w where w: "ArgumentMap ?S0 A = Some w" by blast
    with le have "ArgumentMap T A = Some w"
      by (auto simp: maps_le_def map_le_def dom_def)
    with w show "SILCloner_remapValue T (SILValue (SILArgument A) 0) =
           SILCloner_remapValue ?S0 (SILValue (SILArgument A) 0)"
      "\<exists>v. SILCloner_remapValue T (SILValue (SILArgument A) 0) = Inr v"
      by simp_all
  qed
  have 6: "\<forall>T I v T'. maps_le ?S0 T \<and> visit C I T = Inr (v, T') \<longrightarrow> maps_le ?S0 T'"
    by (blast intro: maps_le_trans visit_maps_le)
  have 7: "\<forall>T b B. maps_le ?S0 T \<longrightarrow> maps_le ?S0 (mapSuccessor b B T)"
    by (blast intro: maps_le_trans mapSuccessor_maps_le)
  from 1 2 3 4 5 6 7 show ?thesis by blast
qed

theorem successor_mapped_before_visit_witness:
  "\<exists>S'. BBMap walkStart 3 = None \<and>
   getBB diamondCFG 3 = Some \<lparr> BBArgs = [(20, 7)],
            InstList = [(14, Access (LoadInst 1 (SILValue (SILArgument 20) 0))),
                        (15, Term (ReturnInst 1 (SILValue (SILInstruction 14) 0)))],
            Succs = [] \<rparr> \<and>
   BBMap (mapSuccessor 3 (the (getBB diamondCFG 3)) walkStart) 3 = Some 100 \<and>
   ArgumentMap (mapSuccessor 3 (the (getBB diamondCFG 3)) walkStart) 20
     = Some (SILValue (SILArgument 101) 0) \<and>
   SILCloner_remapBasicBlock (mapSuccessor 3 (the (getBB diamondCFG 3)) walkStart) 3 = Inr 100 \<and>
   SILCloner_remapValue (mapSuccessor 3 (the (getBB diamondCFG 3)) walkStart)
     (SILValue (SILArgument 20) 0) = Inr (SILValue (SILArgument 101) 0) \<and>
   visitSILBasicBlock SILCloner_Impl diamondCFG 3
     (mapSuccessor 3 (the (getBB diamondCFG 3)) walkStart) = Inr S' \<and>
   visitSuccs SILCloner_Impl diamondCFG [3] walkStart = Inr S' \<and>
   maps_le (mapSuccessor 3 (the (getBB diamondCFG 3)) walkStart) S' \<and>
   SILCloner_remapBasicBlock S' 3 = Inr 100 \<and>
   SILCloner_remapValue S' (SILValue (SILArgument 20) 0) = Inr (SILValue (SILArgument 101) 0) \<and>
   NewInsts S' = [(102, Some 100, Access (LoadInst 1 (SILValue (SILArgument 101) 0)))]"
proof -
  let ?B = "the (getBB diamondCFG 3)"
  let ?S0 = "mapSuccessor 3 ?B walkStart"
  have h: "BBMap walkStart 3 = None" "getBB diamondCFG 3 = Some ?B"
    by (simp_all add: walkStart_def SILCloner_new_def getBB_def diamondCFG_def)
  have b: "getBB diamondCFG 3 = Some \<lparr> BBArgs = [(20, 7)],
            InstList = [(14, Access (LoadInst 1 (SILValue (SILArgument 20) 0))),
                        (15, Term (ReturnInst 1 (SILValue (SILInstruction 14) 0)))],
            Succs = [] \<rparr>"
    by (simp add: getBB_def diamondCFG_def)
  from diamond_walk_from_3 obtain S' where
    e: "visitSILBasicBlock SILCloner_Impl diamondCFG 3 ?S0 = Inr S'"
    and n: "NewInsts S' = [(102, Some 100, Access (LoadInst 1 (SILValue (SILArgument 101) 0)))]"
    by blast
  note t = successor_mapped_before_visit[OF h, of SILCloner_Impl "[]"]
  from t have 1: "visitSuccs SILCloner_Impl diamondCFG [3] walkStart =
       bindE (visitSILBasicBlock SILCloner_Impl diamondCFG 3 ?S0) (visitSuccs SILCloner_Impl diamondCFG [])"
    by blast
  with e have 2: "visitSuccs SILCloner_Impl diamondCFG [3] walkStart = Inr S'"
    by (simp add: bindE_def)
  from t have 3: "BBMap ?S0 3 = Some (NextAddr walkStart)" by blast
  from t e have 4: "maps_le ?S0 S'" by blast
  from t have 5: "\<forall>T. maps_le ?S0 T \<longrightarrow>
        SILCloner_remapBasicBlock T 3 = Inr (NextAddr walkStart) \<and>
        (\<forall>A \<in> fst ` set (BBArgs ?B).
           SILCloner_remapValue T (SILValue (SILArgument A) 0) =
           SILCloner_remapValue ?S0 (SILValue (SILArgument A) 0) \<and>
           (\<exists>v. SILCloner_remapValue T (SILValue (SILArgument A) 0) = Inr v))"
    by blast
  have a: "20 \<in> fst ` set (BBArgs ?B)" using b by simp
  from 5 4 a have 6: "SILCloner_remapBasicBlock S' 3 = Inr (NextAddr walkStart)"
    "SILCloner_remapValue S' (SILValue (SILArgument 20) 0) =
           SILCloner_remapValue ?S0 (SILValue (SILArgument 20) 0)"
    by blast+
  have 7: "NextAddr walkStart = 100"
    "ArgumentMap ?S0 20 = Some (SILValue (SILArgument 101) 0)"
    by (simp_all add: b mapSuccessor_def Let_def walkStart_def SILCloner_new_def DenseMap_insert_def)
  from h(1) b 2 3 4 6 7 e n show ?thesis
    by (simp add: SILCloner_remapBasicBlock_def)
qed

end
